theory Spec2Isabelle
  imports Complex_Main "HOL-Library.Char_ord" "HOL-Library.List_Lexorder"
begin

section \<open>Conventions of the embedding\<close>

text \<open>
  The theory embeds the analysis engine (\<^verbatim>\<open>analysis_engine.py\<close>), the two loader steps
  of \<^verbatim>\<open>data_loader.py\<close> that shape cost-factor columns, and the record-card parser
  (\<^verbatim>\<open>rc_parser.py\<close>).

  \<^item> A Python \<^verbatim>\<open>float\<close> is a \<^typ>\<open>real\<close>: arithmetic is exact and every value is
    finite. A cell of a pandas column that may be missing (NaN, NA, None) is an
    \<^typ>\<open>'a option\<close>, with \<^term>\<open>None\<close> for the missing cell.
  \<^item> A Python \<^verbatim>\<open>int\<close> is an \<^typ>\<open>int\<close>.
  \<^item> A \<^verbatim>\<open>str\<close> is a \<^typ>\<open>string\<close>; text is taken to be ASCII, so that
    \<^verbatim>\<open>strip\<close>, \<^verbatim>\<open>upper\<close> and slicing act on characters one by one.
  \<^item> A \<^verbatim>\<open>dict\<close> keyed by year is an association list in iteration order.
  \<^item> A \<^verbatim>\<open>DataFrame\<close> is a record holding which optional columns the table has, and
    the list of its rows in index order.
  \<^item> An exception is a value \<^term>\<open>Inl e\<close> of the result type.
\<close>

datatype py_error = KeyError | ValueError | TypeError | IndexingError

definition bind_res :: "'e + 'a \<Rightarrow> ('a \<Rightarrow> 'e + 'b) \<Rightarrow> 'e + 'b" where
  "bind_res m f = (case m of Inl e \<Rightarrow> Inl e | Inr a \<Rightarrow> f a)"

section \<open>Sales statistics\<close>

text \<open>
  The dictionary built by \<^verbatim>\<open>compute_sales_stats\<close> has one of three shapes:
  \<^verbatim>\<open>{"count": 0}\<close> for an empty frame; the full dictionary; and, for a frame with rows
  but no adjusted price at all, the full dictionary with count 0 whose mean, median,
  min, max and delta are NaN, \<^verbatim>\<open>pct_below_tcv\<close> is 0, \<^verbatim>\<open>pct_above_tcv\<close> is 100 and
  \<^verbatim>\<open>delta_pct\<close> is 0. The fields \<^verbatim>\<open>min\<close> and \<^verbatim>\<open>max\<close> carry the names of the
  source's local variables.
\<close>

record stats_fields =
  count :: int
  mean :: real
  median :: real
  min_price :: real
  max_price :: real
  pct_below_tcv :: real
  pct_above_tcv :: real
  delta_from_median :: real
  delta_pct :: real

datatype sales_stats = CountOnly | NoPrices | Stats stats_fields

text \<open>\<^verbatim>\<open>sales_stats.get("count", 0)\<close>\<close>

fun get_count :: "sales_stats \<Rightarrow> int" where
  "get_count CountOnly = 0"
| "get_count NoPrices = 0"
| "get_count (Stats d) = count d"

text \<open>\<^verbatim>\<open>sales_stats["pct_below_tcv"]\<close> and \<^verbatim>\<open>sales_stats["pct_above_tcv"]\<close>, with
  \<^term>\<open>None\<close> for a key the dictionary does not have.\<close>

fun get_pct_below_tcv :: "sales_stats \<Rightarrow> real option" where
  "get_pct_below_tcv CountOnly = None"
| "get_pct_below_tcv NoPrices = Some 0"
| "get_pct_below_tcv (Stats d) = Some (pct_below_tcv d)"

fun get_pct_above_tcv :: "sales_stats \<Rightarrow> real option" where
  "get_pct_above_tcv CountOnly = None"
| "get_pct_above_tcv NoPrices = Some 100"
| "get_pct_above_tcv (Stats d) = Some (pct_above_tcv d)"

section \<open>Valuation engine\<close>

text \<open>Python's \<^verbatim>\<open>max\<close> of a list: the first greatest element; ValueError on the empty
  list.\<close>

fun py_max :: "real list \<Rightarrow> py_error + real" where
  "py_max [] = Inl ValueError"
| "py_max (x # xs) = Inr (fold (\<lambda>y m. if y > m then y else m) xs x)"

text \<open>The guard \<^verbatim>\<open>sales_stats.get("count", 0) > 0\<close> together with the dictionary that
  is read under it: among the three shapes only the full dictionary can pass.\<close>

fun with_sales :: "sales_stats \<Rightarrow> stats_fields option" where
  "with_sales (Stats d) = (if count d > 0 then Some d else None)"
| "with_sales _ = None"

definition compute_recommended_values ::
  "real option \<Rightarrow> real \<Rightarrow> sales_stats \<Rightarrow> py_error + (real \<times> real)" where
  "compute_recommended_values ecf_2026 user_tcv sales_stats =
     (let candidates = [];
          candidates = (case ecf_2026 of
                          Some e \<Rightarrow> if e < 1 then candidates @ [user_tcv * e] else candidates
                        | None \<Rightarrow> candidates);
          candidates = (case with_sales sales_stats of
                          Some d \<Rightarrow> (candidates @ [median d]) @ [mean d]
                        | None \<Rightarrow> candidates)
      in if candidates = [] then Inr (user_tcv, user_tcv)
         else
           let primary =
                 (case with_sales sales_stats of
                    Some d \<Rightarrow> median d
                  | None \<Rightarrow>
                      (case ecf_2026 of
                         Some e \<Rightarrow> if e < 1 then user_tcv * e else user_tcv
                       | None \<Rightarrow> user_tcv))
           in bind_res (py_max candidates) (\<lambda>m. Inr (primary, m)))"

text \<open>The valuation rule in the specification's words: the candidate set, and the primary
  recommended value.\<close>

definition spec_candidate_set :: "real option \<Rightarrow> real \<Rightarrow> sales_stats \<Rightarrow> real set" where
  "spec_candidate_set ecf_2026 user_tcv sales_stats =
     (case ecf_2026 of Some e \<Rightarrow> if e < 1 then {user_tcv * e} else {} | None \<Rightarrow> {})
     \<union> (case sales_stats of
          Stats d \<Rightarrow> if count d > 0 then {median d, mean d} else {}
        | _ \<Rightarrow> {})"

definition spec_primary :: "real option \<Rightarrow> real \<Rightarrow> sales_stats \<Rightarrow> real" where
  "spec_primary ecf_2026 user_tcv sales_stats =
     (if get_count sales_stats > 0
      then (case sales_stats of Stats d \<Rightarrow> median d | _ \<Rightarrow> user_tcv)
      else (case ecf_2026 of
              Some e \<Rightarrow> if e < 1 then user_tcv * e else user_tcv
            | None \<Rightarrow> user_tcv))"

section \<open>Python built-ins used by the petition composer\<close>

text \<open>\<^verbatim>\<open>round(x)\<close> on a float: the nearest integer, a tie going to the even one.\<close>

definition py_round :: "real \<Rightarrow> int" where
  "py_round x =
     (let f = \<lfloor>x\<rfloor>; d = x - of_int f
      in if d < 1 / 2 then f
         else if d > 1 / 2 then f + 1
         else if even f then f else f + 1)"

text \<open>\<^verbatim>\<open>int(x)\<close> on a float truncates toward zero.\<close>

definition py_int :: "real \<Rightarrow> int" where
  "py_int x = (if x \<ge> 0 then \<lfloor>x\<rfloor> else \<lceil>x\<rceil>)"

definition digit_char :: "nat \<Rightarrow> char" where
  "digit_char d = ''0123456789'' ! (d mod 10)"

fun show_nat :: "nat \<Rightarrow> string" where
  "show_nat n = (if n < 10 then [digit_char n] else show_nat (n div 10) @ [digit_char n])"

declare show_nat.simps [simp del]

text \<open>\<^verbatim>\<open>str(n)\<close> for an integer.\<close>

definition show_int :: "int \<Rightarrow> string" where
  "show_int i = (if i < 0 then ''-'' @ show_nat (nat (- i)) else show_nat (nat i))"

text \<open>The thousands separator of the format option \<^verbatim>\<open>,\<close>: a comma before every group of
  three digits, counted from the right.\<close>

fun group3 :: "string \<Rightarrow> string" where
  "group3 ds =
     (if length ds \<le> 3 then ds
      else group3 (take (length ds - 3) ds) @ '','' @ drop (length ds - 3) ds)"

declare group3.simps [simp del]

definition zero_pad :: "nat \<Rightarrow> string \<Rightarrow> string" where
  "zero_pad w s = replicate (w - length s) CHR ''0'' @ s"

text \<open>
  The presentation types \<^verbatim>\<open>[+][,].pf\<close> of a float: \<open>signed\<close> is the sign option \<^verbatim>\<open>+\<close>,
  \<open>comma\<close> the grouping option, \<open>p\<close> the precision. The magnitude is rounded to \<open>p\<close>
  decimals, ties to even; a negative value keeps its sign when it rounds to zero.
\<close>

definition fmt_f :: "bool \<Rightarrow> bool \<Rightarrow> nat \<Rightarrow> real \<Rightarrow> string" where
  "fmt_f signed comma p x =
     (let n = nat (py_round (\<bar>x\<bar> * 10 ^ p));
          whole = show_nat (n div 10 ^ p);
          whole = (if comma then group3 whole else whole);
          frac = (if p = 0 then [] else ''.'' @ zero_pad p (show_nat (n mod 10 ^ p)));
          sign = (if x < 0 then ''-'' else if signed then ''+'' else [])
      in sign @ whole @ frac)"

text \<open>\<^verbatim>\<open>{n:,}\<close> for an integer.\<close>

definition fmt_int_comma :: "int \<Rightarrow> string" where
  "fmt_int_comma i =
     (if i < 0 then ''-'' @ group3 (show_nat (nat (- i))) else group3 (show_nat (nat i)))"

text \<open>Alignment in a field of width \<open>w\<close>: \<^verbatim>\<open>{s:<w}\<close> (the default for text) and
  \<^verbatim>\<open>{s:>w}\<close>; a longer text is not cut.\<close>

definition ljust :: "nat \<Rightarrow> string \<Rightarrow> string" where
  "ljust w s = s @ replicate (w - length s) CHR '' ''"

definition rjust :: "nat \<Rightarrow> string \<Rightarrow> string" where
  "rjust w s = replicate (w - length s) CHR '' '' @ s"

text \<open>The shorthands of the composer: \<^verbatim>\<open>{x:,.0f}\<close>, \<^verbatim>\<open>{x:.3f}\<close>.\<close>

abbreviation money :: "real \<Rightarrow> string" where
  "money x \<equiv> fmt_f False True 0 x"

abbreviation ratio3 :: "real \<Rightarrow> string" where
  "ratio3 x \<equiv> fmt_f False False 3 x"

text \<open>\<^verbatim>\<open>str.strip()\<close> and \<^verbatim>\<open>str.upper()\<close> on ASCII text.\<close>

definition is_space :: "char \<Rightarrow> bool" where
  "is_space c = (c \<in> set [CHR '' '', CHR 0x09, CHR 0x0A, CHR 0x0B, CHR 0x0C, CHR 0x0D,
                           CHR 0x1C, CHR 0x1D, CHR 0x1E, CHR 0x1F])"

definition py_strip :: "string \<Rightarrow> string" where
  "py_strip s = rev (dropWhile is_space (rev (dropWhile is_space s)))"

definition upper_char :: "char \<Rightarrow> char" where
  "upper_char c =
     (case map_of (zip ''abcdefghijklmnopqrstuvwxyz'' ''ABCDEFGHIJKLMNOPQRSTUVWXYZ'') c of
        Some u \<Rightarrow> u
      | None \<Rightarrow> c)"

definition py_upper :: "string \<Rightarrow> string" where
  "py_upper s = map upper_char s"

text \<open>\<^verbatim>\<open>sep.join(L)\<close>\<close>

fun join_with :: "string \<Rightarrow> string list \<Rightarrow> string" where
  "join_with sep [] = []"
| "join_with sep [l] = l"
| "join_with sep (l # ls) = l @ sep @ join_with sep ls"

definition join_lines :: "string list \<Rightarrow> string" where
  "join_lines L = join_with [CHR 0x0A] L"

text \<open>Truthiness of an optional number: neither None nor zero.\<close>

fun truthy :: "real option \<Rightarrow> bool" where
  "truthy None = False"
| "truthy (Some x) = (x \<noteq> 0)"

text \<open>A dictionary in insertion order: \<^verbatim>\<open>d[k] = v\<close>, \<^verbatim>\<open>d.get(k)\<close>, \<^verbatim>\<open>d.keys()\<close>.\<close>

fun dict_set :: "('k \<times> 'v) list \<Rightarrow> 'k \<Rightarrow> 'v \<Rightarrow> ('k \<times> 'v) list" where
  "dict_set [] k v = [(k, v)]"
| "dict_set ((k', v') # d) k v =
     (if k' = k then (k, v) # d else (k', v') # dict_set d k v)"

definition dict_get :: "('k \<times> 'v) list \<Rightarrow> 'k \<Rightarrow> 'v option" where
  "dict_get d k = map_of d k"

definition dict_keys :: "('k \<times> 'v) list \<Rightarrow> 'k list" where
  "dict_keys d = remdups (map fst d)"

section \<open>Records read by the petition composer\<close>

text \<open>\<^verbatim>\<open>AssessmentYear\<close> and \<^verbatim>\<open>PropertyData\<close> of the record-card parser. The land value
  of one history row is \<open>hist_land_value\<close>, to keep it apart from the property's.\<close>

record AssessmentYear =
  year :: int
  hist_land_value :: "int option"
  building_value :: "int option"
  assessed_value :: "int option"
  taxable_value :: "int option"

record PropertyData =
  parcel_number :: string
  address :: string
  area_code :: string
  subdivision :: string
  sev_2026 :: int
  tcv_2026 :: int
  land_value :: int
  ecf :: "real option"
  floor_area :: int
  ground_area :: int
  basement_sf :: int
  year_built :: int
  condition :: string
  style :: string
  effective_age :: int
  total_base_new :: int
  total_depr_cost :: int
  estimated_tcv_cost :: int
  assessment_history :: "AssessmentYear list"
  raw_text_page1 :: string
  raw_text_page2 :: string

text \<open>One dictionary of \<^verbatim>\<open>get_ecf_properties\<close> (keys \<^verbatim>\<open>year\<close>, \<^verbatim>\<open>address\<close>, \<^verbatim>\<open>parcel\<close>,
  \<^verbatim>\<open>sale_price\<close>, \<^verbatim>\<open>cost_man\<close>, \<^verbatim>\<open>ecf\<close>) and one of \<^verbatim>\<open>get_land_value_trends\<close> (keys
  \<^verbatim>\<open>year\<close>, \<^verbatim>\<open>adjust_factor\<close>, \<^verbatim>\<open>prior_lv\<close>, \<^verbatim>\<open>current_lv\<close>).\<close>

record ecf_property =
  ep_year :: int
  ep_address :: string
  ep_parcel :: string
  ep_sale_price :: "real option"
  ep_cost_man :: "real option"
  ep_ecf :: "real option"

record land_trend =
  lt_year :: int
  adjust_factor :: "real option"
  prior_lv :: "real option"
  current_lv :: "real option"

text \<open>One row of the frame that \<^verbatim>\<open>get_comparable_sales\<close> returns: the six columns it
  selects, \<open>year_col\<close> being the column \<^verbatim>\<open>_year\<close>.\<close>

record comp_sale =
  Parcel_Number :: "string option"
  Street_Address :: "string option"
  Sale_Date :: "string option"
  Sale_Price :: "real option"
  Adj_Sale :: "real option"
  year_col :: int

text \<open>\<^verbatim>\<open>str(cell)\<close> of a text cell: a missing cell prints as \<^verbatim>\<open>nan\<close>.\<close>

fun str_cell :: "string option \<Rightarrow> string" where
  "str_cell None = ''nan''"
| "str_cell (Some s) = s"

section \<open>Petition composer\<close>

definition rule_eq :: string where
  "rule_eq = replicate 70 CHR ''=''"

definition rule_dash :: string where
  "rule_dash = replicate 70 CHR ''-''"

text \<open>A value handed to a numeric format: None raises TypeError.\<close>

fun need :: "'a option \<Rightarrow> py_error + 'a" where
  "need None = Inl TypeError"
| "need (Some x) = Inr x"

text \<open>The short form, emitted when no appeal is recommended.\<close>

definition not_recommended_lines ::
  "string \<Rightarrow> string \<Rightarrow> real \<Rightarrow> real \<Rightarrow> real option \<Rightarrow> real option \<Rightarrow> sales_stats
     \<Rightarrow> PropertyData option \<Rightarrow> py_error + string list" where
  "not_recommended_lines area_code' subdivision' user_sev user_tcv ecf_2026 ecf_adjusted
       sales_stats prop =
     bind_res
       (case ecf_adjusted of
          Some a \<Rightarrow>
            if a \<noteq> 0
            then bind_res (need ecf_2026) (\<lambda>e.
                   Inr [''  - ECF-adjusted value (ECF='' @ ratio3 e @ ''):   $'' @ money a])
            else Inr []
        | None \<Rightarrow> Inr [])
       (\<lambda>ecf_line.
     bind_res
       (case with_sales sales_stats of
          Some d \<Rightarrow>
            if median d \<ge> user_tcv
            then Inr [''The median sale price ($'' @ money (median d) @ '') is at or above your'',
                     ''TCV ($'' @ money user_tcv @ ''), meaning comparable sales support the current'',
                     ''assessment. The Board of Review is unlikely to grant a reduction.'']
            else if (case ecf_adjusted of Some a \<Rightarrow> a \<noteq> 0 \<and> a < user_tcv | None \<Rightarrow> False)
            then bind_res (need ecf_2026) (\<lambda>e.
                   Inr [''While the ECF ('' @ ratio3 e @ '') suggests some overvaluation, the median'',
                     ''sale price ($'' @ money (median d) @ '') supports the current assessment.'',
                     ''An ECF-only argument would be aggressive and may not succeed.''])
            else Inr []
        | None \<Rightarrow> Inr [])
       (\<lambda>support.
     Inr ([rule_eq,
           ''APPEAL ANALYSIS '' @ [CHR 0xE2, CHR 0x80, CHR 0x94] @ '' NOT RECOMMENDED'',
           rule_eq,
           '''']
      @ (case prop of
           Some p \<Rightarrow> if address p \<noteq> [] then [''Property:  '' @ address p] else []
         | None \<Rightarrow> [])
      @ [''Area:      '' @ area_code' @ '' ('' @ subdivision' @ '')'',
         ''Your SEV:  $'' @ money user_sev @ ''  (TCV: $'' @ money user_tcv @ '')'',
         '''',
         ''Based on the available evidence, an appeal is NOT recommended'',
         ''for this property. The current assessment appears to be at or'',
         ''below market value:'',
         '''']
      @ (case with_sales sales_stats of
           Some d \<Rightarrow> [''  - Median of '' @ show_int (count d) @ '' comparable sales: $'' @ money (median d),
                     ''  - Average of '' @ show_int (count d) @ '' comparable sales: $'' @ money (mean d)]
         | None \<Rightarrow> [])
      @ ecf_line
      @ [''  - Your current TCV:                      $'' @ money user_tcv,
         '''']
      @ support
      @ ['''', rule_eq])))"

text \<open>The long form, section by section.\<close>

definition header_lines :: "string list" where
  "header_lines =
     [''PETITION TO THE BOARD OF REVIEW'',
      ''Pittsfield Charter Township, Washtenaw County, Michigan'',
      ''Tax Year 2026'',
      '''']"

definition property_information_lines ::
  "string \<Rightarrow> string \<Rightarrow> PropertyData option \<Rightarrow> string list" where
  "property_information_lines area_code' subdivision' prop =
     [rule_eq, ''PROPERTY INFORMATION'', rule_eq]
     @ (case prop of
          Some p \<Rightarrow>
            (if parcel_number p \<noteq> [] then [''Parcel Number:    '' @ parcel_number p] else [])
            @ (if address p \<noteq> [] then [''Property Address: '' @ address p @ '', Ypsilanti, MI 48197''] else [])
        | None \<Rightarrow> [])
     @ [''Township:         Pittsfield Charter Township'',
        ''County:           Washtenaw'',
        ''School District:  Ann Arbor Public Schools'',
        ''Classification:   Residential (401)'',
        ''ECF Area:         '' @ area_code' @ '' ('' @ subdivision' @ '')'']
     @ (case prop of
          Some p \<Rightarrow>
            (let details = [];
                 details = (if style p \<noteq> [] then details @ [style p] else details);
                 details = (if year_built p \<noteq> 0
                            then details @ [''Built '' @ show_int (year_built p)] else details);
                 details = (if floor_area p \<noteq> 0
                            then details @ [fmt_int_comma (floor_area p) @ '' SF''] else details)
             in if details \<noteq> [] then [''Property:         '' @ join_with '', '' details] else [])
        | None \<Rightarrow> [])
     @ ['''']"

text \<open>\<^verbatim>\<open>rec_tcv = rec_sev * 2\<close>\<close>

definition recommended_tcv :: "int \<Rightarrow> int" where
  "recommended_tcv rec_sev = rec_sev * 2"

definition assessment_values_lines ::
  "real \<Rightarrow> real \<Rightarrow> int \<Rightarrow> PropertyData option \<Rightarrow> string list" where
  "assessment_values_lines user_sev user_tcv rec_sev prop =
     (let rec_tcv = recommended_tcv rec_sev;
          taxable = None;
          taxable =
            (case prop of
               Some p \<Rightarrow>
                 (if assessment_history p \<noteq> []
                  then (case find (\<lambda>h. year h = 2026) (assessment_history p) of
                          Some h2026 \<Rightarrow>
                            (case taxable_value h2026 of
                               Some t \<Rightarrow> if t \<noteq> 0 then Some t else taxable
                             | None \<Rightarrow> taxable)
                        | None \<Rightarrow> taxable)
                  else taxable)
             | None \<Rightarrow> taxable)
      in [rule_eq,
          ''ASSESSMENT VALUES'',
          rule_eq,
          ljust 30 [] @ '' '' @ rjust 14 ''Current 2026'' @ ''  '' @ rjust 14 ''Petitioner'' @ ''  '' @ rjust 14 ''Difference'',
          replicate 30 CHR ''-'' @ '' '' @ replicate 14 CHR ''-'' @ ''  '' @ replicate 14 CHR ''-'' @ ''  '' @ replicate 14 CHR ''-'',
          ljust 30 ''Assessed Value (SEV)'' @ '' $'' @ rjust 13 (money user_sev) @ ''  $'' @ rjust 13 (money (of_int rec_sev)) @ ''  $'' @ rjust 13 (fmt_f True True 0 (of_int rec_sev - user_sev)),
          ljust 30 ''True Cash Value (TCV)'' @ '' $'' @ rjust 13 (money user_tcv) @ ''  $'' @ rjust 13 (money (of_int rec_tcv)) @ ''  $'' @ rjust 13 (fmt_f True True 0 (of_int rec_tcv - user_tcv))]
         @ (case taxable of
              Some t \<Rightarrow> if t \<noteq> 0 then [ljust 30 ''Taxable Value'' @ '' $'' @ rjust 13 (money (of_int t)) @ ''  $'' @ rjust 13 (money (of_int t)) @ ''  $'' @ rjust 13 ''0''] else []
            | None \<Rightarrow> [])
         @ [''''])"

definition grounds_lines :: "string \<Rightarrow> string \<Rightarrow> real \<Rightarrow> real \<Rightarrow> int \<Rightarrow> string list" where
  "grounds_lines area_code' subdivision' user_sev user_tcv rec_sev =
     (let rec_tcv = recommended_tcv rec_sev
      in [rule_eq,
          ''GROUNDS FOR APPEAL'',
          rule_eq,
          ''The petitioner contends that the 2026 assessed value of $'' @ money user_sev,
          ''(implying a True Cash Value of $'' @ money user_tcv @ '') exceeds the usual selling'',
          ''price for comparable properties in the '' @ subdivision' @ '' subdivision ('' @ area_code' @ '')'',
          ''and surrounding area. The petitioner requests a reduction to an assessed'',
          ''value of $'' @ money (of_int rec_sev) @ '' (TCV of $'' @ money (of_int rec_tcv) @ ''), supported by the following'',
          ''evidence from the township'' @ [CHR 0x27] @ ''s own records and market data.'',
          ''''])"

text \<open>\<^verbatim>\<open>ecf_trend.get(year)\<close>: None for a year that is absent, and for a year whose value
  is None.\<close>

definition trend_get :: "(int \<times> real option) list \<Rightarrow> int \<Rightarrow> real option" where
  "trend_get ecf_trend y = (case dict_get ecf_trend y of Some v \<Rightarrow> v | None \<Rightarrow> None)"

definition trend_line :: "(int \<times> real option) list \<Rightarrow> int \<Rightarrow> string" where
  "trend_line ecf_trend y =
     (case trend_get ecf_trend y of
        Some val \<Rightarrow>
          (let yr_overval = (1 - val) * 100
           in ''  - '' @ show_int y @ '' ECF: '' @ ratio3 val @ '' (cost exceeds market by '' @ fmt_f False False 1 yr_overval @ ''%)'')
      | None \<Rightarrow> ''  - '' @ show_int y @ '' ECF: Not available (area not in study)'')"

definition evidence_ecf_lines ::
  "int \<Rightarrow> string \<Rightarrow> real \<Rightarrow> (int \<times> real option) list \<Rightarrow> real option \<Rightarrow> real option
     \<Rightarrow> py_error + (string list \<times> int)" where
  "evidence_ecf_lines evidence_num area_code' user_tcv ecf_trend ecf_2026 ecf_adjusted =
     (case ecf_2026 of
        None \<Rightarrow> Inr ([], evidence_num)
      | Some e \<Rightarrow>
          bind_res
            (if e < 1
             then
               (let overval = (1 - e) * 100
                in bind_res (need ecf_adjusted) (\<lambda>a.
                     Inr ([''The township'' @ [CHR 0x27] @ ''s own Economic Condition Factor (ECF) for '' @ area_code' @ '' is'',
                           ratio3 e @ '' (2026), meaning the cost-approach valuations used by the'',
                           ''assessor EXCEED actual market sale prices by approximately '' @ fmt_f False False 1 overval @ ''%.'',
                           ''This has been consistent across available assessment years:'',
                           '''']
                          @ map (trend_line ecf_trend) (sort (dict_keys ecf_trend))
                          @ ['''',
                             ''The ECF is calculated from the township'' @ [CHR 0x27] @ ''s own analysis of actual arm'' @ [CHR 0x27] @ ''s-'',
                             ''length sales compared to cost-approach values, confirming a systematic'',
                             ''pattern of over-assessment in this subdivision.'',
                             '''',
                             ''Applying the ECF to the current assessment:'',
                             ''  TCV '' @ [CHR 0xC3, CHR 0x97] @ '' ECF = ECF-Adjusted TCV'',
                             ''  $'' @ money user_tcv @ '' '' @ [CHR 0xC3, CHR 0x97] @ '' '' @ ratio3 e @ '' = $'' @ money a,
                             ''  Implied over-assessment: $'' @ money (user_tcv - (if truthy ecf_adjusted then a else 0))])))
             else Inr [''The ECF for '' @ area_code' @ '' is '' @ ratio3 e @ '' (at or above 1.0), indicating'',
                       ''the cost approach does not systematically overvalue properties in this'',
                       ''area based on the township'' @ [CHR 0x27] @ ''s own analysis.''])
            (\<lambda>body.
               Inr ([rule_dash,
                     ''EVIDENCE '' @ show_int evidence_num @ '': TOWNSHIP ECF DATA ''
                       @ (if e < 1 then ''CONFIRMS OVER-ASSESSMENT'' else ''ANALYSIS''),
                     rule_dash]
                    @ body @ [''''], evidence_num + 1)))"

text \<open>The per-property lookup \<^verbatim>\<open>ecf_lookup\<close>: address (trimmed, upper case) to year to
  cost factor; a later entry of the list overwrites an earlier one.\<close>

definition ecf_lookup_add ::
  "ecf_property \<Rightarrow> (string \<rightharpoonup> (int \<rightharpoonup> real)) \<Rightarrow> (string \<rightharpoonup> (int \<rightharpoonup> real))" where
  "ecf_lookup_add ep ecf_lookup =
     (let addr_key = py_upper (py_strip (ep_address ep));
          ecf_lookup = (case ecf_lookup addr_key of
                          None \<Rightarrow> ecf_lookup(addr_key \<mapsto> Map.empty)
                        | Some _ \<Rightarrow> ecf_lookup)
      in case ep_ecf ep of
           Some e \<Rightarrow>
             (case ecf_lookup addr_key of
                Some inner \<Rightarrow> ecf_lookup(addr_key \<mapsto> inner(ep_year ep \<mapsto> e))
              | None \<Rightarrow> ecf_lookup)
         | None \<Rightarrow> ecf_lookup)"

definition build_ecf_lookup :: "ecf_property list \<Rightarrow> (string \<rightharpoonup> (int \<rightharpoonup> real))" where
  "build_ecf_lookup ecf_properties = fold ecf_lookup_add ecf_properties Map.empty"

definition ecf_cell :: "(int \<rightharpoonup> real) \<Rightarrow> int \<Rightarrow> string" where
  "ecf_cell prop_ecfs y =
     (case prop_ecfs y of Some v \<Rightarrow> ratio3 v | None \<Rightarrow> ''   -  '')"

definition sale_table_row ::
  "real \<Rightarrow> (string \<rightharpoonup> (int \<rightharpoonup> real)) \<Rightarrow> comp_sale \<Rightarrow> string list" where
  "sale_table_row user_tcv ecf_lookup row =
     (let addr = py_strip (str_cell (Street_Address row));
          addr_display = take 28 addr;
          addr_key = py_upper addr;
          price = Adj_Sale row;
          date = take 12 (py_strip (str_cell (Sale_Date row)))
      in case price of
           None \<Rightarrow> []
         | Some price \<Rightarrow>
             (let diff = price - user_tcv;
                  diff_str = ''$'' @ fmt_f True True 0 diff;
                  prop_ecfs = (case ecf_lookup addr_key of Some d \<Rightarrow> d | None \<Rightarrow> Map.empty);
                  e26 = ecf_cell prop_ecfs 2026;
                  e25 = ecf_cell prop_ecfs 2025;
                  e24 = ecf_cell prop_ecfs 2024
              in [''  '' @ ljust 28 addr_display @ '' $'' @ rjust 11 (money price) @ '' '' @ rjust 12 date @ '' '' @ rjust 12 diff_str @ '' '' @ rjust 7 e26 @ '' '' @ rjust 7 e25 @ '' '' @ rjust 7 e24]))"

definition evidence_sales_lines ::
  "int \<Rightarrow> string \<Rightarrow> real \<Rightarrow> sales_stats \<Rightarrow> ecf_property list \<Rightarrow> comp_sale list option
     \<Rightarrow> string list \<times> int" where
  "evidence_sales_lines evidence_num area_code' user_tcv sales_stats ecf_properties sales_df =
     (case with_sales sales_stats of
        None \<Rightarrow> ([], evidence_num)
      | Some d \<Rightarrow>
          (let below_count = py_int (of_int (count d) * pct_below_tcv d / 100);
               ecf_lookup = build_ecf_lookup ecf_properties
           in ([rule_dash, ''EVIDENCE '' @ show_int evidence_num @ '': COMPARABLE SALES ANALYSIS'', rule_dash]
               @ (if delta_from_median d > 0
                  then [''The assessed TCV of $'' @ money user_tcv @ '' exceeds the median sale price of'',
                        ''comparable arm'' @ [CHR 0x27] @ ''s-length sales in '' @ area_code' @ ''. Of '' @ show_int (count d) @ '' comparable sales'',
                        ''identified across the 2024-2026 assessment data, '' @ show_int below_count @ '' ('' @ fmt_f False False 0 (pct_below_tcv d) @ ''%)'',
                        ''sold BELOW the assessed TCV.'']
                  else [''Analysis of '' @ show_int (count d) @ '' arm'' @ [CHR 0x27] @ ''s-length sales in '' @ area_code' @ '' from the 2024-2026'',
                        ''assessment data:''])
               @ ['''']
               @ (case sales_df of
                    None \<Rightarrow> []
                  | Some rows \<Rightarrow>
                      if rows \<noteq> []
                      then [''  '' @ ljust 28 ''Address'' @ '' '' @ rjust 12 ''Sale Price'' @ '' '' @ rjust 12 ''Date'' @ '' '' @ rjust 12 ''vs TCV'' @ '' '' @ rjust 7 ''ECF 26'' @ '' '' @ rjust 7 ''ECF 25'' @ '' '' @ rjust 7 ''ECF 24'',
                            ''  '' @ replicate 28 CHR ''-'' @ '' '' @ replicate 12 CHR ''-'' @ '' '' @ replicate 12 CHR ''-'' @ '' '' @ replicate 12 CHR ''-'' @ '' '' @ replicate 7 CHR ''-'' @ '' '' @ replicate 7 CHR ''-'' @ '' '' @ replicate 7 CHR ''-'']
                           @ concat (map (sale_table_row user_tcv ecf_lookup) rows)
                           @ ['''']
                      else [])
               @ [''  Summary Statistics:'',
                  ''  - Number of sales:       '' @ show_int (count d),
                  ''  - Median sale price:     $'' @ money (median d),
                  ''  - Average sale price:    $'' @ money (mean d),
                  ''  - Price range:           $'' @ money (min_price d) @ '' - $'' @ money (max_price d)]
               @ (if delta_from_median d > 0
                  then [''  - Your TCV vs median:    +$'' @ money (delta_from_median d) @ '' ('' @ fmt_f False False 1 (delta_pct d) @ ''% above)'',
                        ''  - Sales below your TCV:  '' @ show_int below_count @ '' of '' @ show_int (count d) @ '' ('' @ fmt_f False False 0 (pct_below_tcv d) @ ''%)'']
                  else [])
               @ ['''']
               @ (if delta_from_median d > 0
                  then [''The average sale price of $'' @ money (mean d) @ '' is $'' @ money (user_tcv - mean d) @ '' below the'',
                        ''assessed TCV of $'' @ money user_tcv @ ''.'']
                  else [])
               @ [''''],
               evidence_num + 1)))"

text \<open>The loop over the land-trend rows: the state is the first prior land value seen,
  the last current one, and the lines so far.\<close>

definition land_step ::
  "land_trend \<Rightarrow> real option \<times> real option \<times> string list
     \<Rightarrow> real option \<times> real option \<times> string list" where
  "land_step lt st =
     (case st of (first_lv, last_lv, L) \<Rightarrow>
        (let factor = adjust_factor lt;
             current = current_lv lt;
             prior = prior_lv lt;
             first_lv = (if truthy prior \<and> first_lv = None then prior else first_lv);
             last_lv = (if truthy current then current else last_lv);
             L = (case factor of
                    Some factor \<Rightarrow>
                      (let pct = (factor - 1) * 100;
                           current_str = (case current of
                                            Some c \<Rightarrow> if c \<noteq> 0 then ''$'' @ money c else ''N/A''
                                          | None \<Rightarrow> ''N/A'')
                       in L @ [''  - '' @ show_int (lt_year lt) @ '' Land Value: '' @ current_str @ '' (Adjustment Factor: '' @ fmt_f False False 4 factor @ '', '' @ fmt_f True False 1 pct @ ''%)''])
                  | None \<Rightarrow>
                      (case current of
                         Some c \<Rightarrow> if c \<noteq> 0 then L @ [''  - '' @ show_int (lt_year lt) @ '' Land Value: $'' @ money c] else L
                       | None \<Rightarrow> L))
         in (first_lv, last_lv, L)))"

definition evidence_land_lines ::
  "int \<Rightarrow> string \<Rightarrow> real option \<Rightarrow> land_trend list \<Rightarrow> string list \<times> int" where
  "evidence_land_lines evidence_num area_code' ecf_2026 land_trends =
     (if land_trends = [] then ([], evidence_num)
      else
        (case fold land_step land_trends (None, None, []) of (first_lv, last_lv, rows) \<Rightarrow>
           ([rule_dash, ''EVIDENCE '' @ show_int evidence_num @ '': LAND VALUE TREND'', rule_dash,
             ''The '' @ area_code' @ '' land values have changed as follows over 3 years:'',
             '''']
            @ rows
            @ (case (first_lv, last_lv) of
                 (Some f, Some l) \<Rightarrow>
                   if f \<noteq> 0 \<and> l \<noteq> 0 \<and> f > 0
                   then (let total_pct = (l - f) / f * 100
                         in ['''', ''  Total land value change: $'' @ money f @ '' -> $'' @ money l @ '' ('' @ fmt_f True False 1 total_pct @ ''%)''])
                   else []
               | _ \<Rightarrow> [])
            @ (if (case ecf_2026 of Some e \<Rightarrow> e \<noteq> 0 \<and> e < 1 | None \<Rightarrow> False)
               then ['''',
                     ''  While land values have increased, the ECF data shows that building'',
                     ''  cost valuations consistently exceed market. The combined effect'',
                     ''  produces assessments that overstate actual market conditions.'']
               else [])
            @ [''''],
            evidence_num + 1)))"

definition conclusion_lines ::
  "string \<Rightarrow> real \<Rightarrow> int \<Rightarrow> real option \<Rightarrow> real option \<Rightarrow> sales_stats
     \<Rightarrow> string list" where
  "conclusion_lines area_code' user_sev rec_sev ecf_2026 ecf_adjusted sales_stats =
     (let arguments = [];
          arguments =
            (case ecf_2026 of
               Some e \<Rightarrow>
                 if e \<noteq> 0 \<and> e < 1
                 then arguments @ [''the township'' @ [CHR 0x27] @ ''s own ECF analysis confirming systematic over-assessment '' @ ''in '' @ area_code' @ '' (ECF = '' @ ratio3 e @ '')'']
                 else arguments
             | None \<Rightarrow> arguments);
          arguments =
            (case with_sales sales_stats of
               Some d \<Rightarrow>
                 if delta_from_median d > 0
                 then arguments @ [''comparable sales evidence showing a median price of $'' @ money (median d) @ '' '' @ ''and an average of $'' @ money (mean d)]
                 else arguments
             | None \<Rightarrow> arguments)
      in [rule_eq,
          ''CONCLUSION AND REQUESTED RELIEF'',
          rule_eq,
          ''Based on '' @ (if arguments \<noteq> [] then join_with '', '' arguments else ''the evidence presented above'') @ '','',
          ''the petitioner respectfully requests that the Board of Review reduce the'',
          ''2026 assessed value from $'' @ money user_sev @ '' to $'' @ money (of_int rec_sev) @ '', reflecting a'',
          ''True Cash Value of $'' @ money (of_int (rec_sev * 2)) @ ''.'',
          '''',
          ''This value is consistent with:'']
         @ (case with_sales sales_stats of
              Some d \<Rightarrow> [''  - The average of '' @ show_int (count d) @ '' comparable arm'' @ [CHR 0x27] @ ''s-length sales ($'' @ money (mean d) @ '')'']
            | None \<Rightarrow> [])
         @ (case ecf_adjusted of
              Some a \<Rightarrow> if a \<noteq> 0 then [''  - The township'' @ [CHR 0x27] @ ''s own ECF-adjusted cost approach ($'' @ money a @ '')''] else []
            | None \<Rightarrow> [])
         @ [''  - The sales-comparison approach, which is the most persuasive valuation'',
          ''    method for residential property under Michigan law'',
          ''    (Meadowlanes Ltd v Holland, 437 Mich 473)'',
          ''''])"

definition legal_basis_lines :: "string list" where
  "legal_basis_lines =
     [rule_dash,
      ''LEGAL BASIS'',
      rule_dash,
      ''Under MCL 211.27(1), true cash value means the usual selling price.'',
      ''There is no presumption of validity for the assessor'' @ [CHR 0x27] @ ''s value'',
      ''(Alhi Development Co v Orion Twp, 110 Mich App 764, 1981).'',
      ''The sales-comparison approach is the most persuasive valuation method'',
      ''for residential property (Meadowlanes Ltd v Holland, 437 Mich 473).'',
      '''']"

definition petitioner_lines :: "PropertyData option \<Rightarrow> string list" where
  "petitioner_lines prop =
     [rule_eq,
      ''PETITIONER'',
      rule_eq,
      '''',
      ''Signature: ____________________________    Date: ___/___/2026'',
      '''']
     @ (if (case prop of Some p \<Rightarrow> address p \<noteq> [] | None \<Rightarrow> False)
        then (case prop of
                Some p \<Rightarrow> [''Printed Name: _________________________'',
                         ''Address: '' @ address p @ '', Ypsilanti, MI 48197'']
              | None \<Rightarrow> [])
        else [''Printed Name: _________________________'',
              ''Address: _____________________________''])
     @ [''Phone: ________________________________'',
        ''Email: ________________________________'',
        '''']"

definition footer_lines :: "string list" where
  "footer_lines =
     [rule_dash,
      ''Note: This petition is submitted pursuant to MCL 211.30 and the General'',
      ''Property Tax Act. The petitioner requests that the Board of Review'',
      ''consider this written petition in lieu of a personal appearance, per'',
      ''MCL 211.30(4).'',
      '''',
      ''Data source: Pittsfield Township official assessment documents (2024-2026)'',
      ''Available at: pittsfield-mi.gov/2230/Property-Assessment-Data'',
      '''',
      ''APPEAL DEADLINE: March 10, 2026 at 5:00 PM'',
      ''Location: 6201 W. Michigan Ave, Ann Arbor, MI 48108'',
      ''Phone: 734-822-3115 | Email: assessing@pittsfield-mi.gov'']"

text \<open>
  \<^verbatim>\<open>generate_appeal_summary\<close>. The valuation comes first: \<open>homeowner_tcv\<close> is
  \<^verbatim>\<open>user_tcv = user_sev * 2\<close>, \<open>ecf_adjusted_of\<close> the cost-factor-adjusted value, which is
  None unless the factor is truthy and below 1.0, \<open>rec_sev\<close> the recommended assessed
  value and \<open>no_appeal\<close> the verdict. The argument \<open>coverage\<close> is the dictionary of
  \<^verbatim>\<open>check_sales_coverage\<close>; the body does not read it. The local \<^verbatim>\<open>addr_str\<close> of the
  source is assigned and never read, and has no counterpart here.
\<close>

definition homeowner_tcv :: "real \<Rightarrow> real" where
  "homeowner_tcv user_sev = user_sev * 2"

definition ecf_adjusted_of :: "real option \<Rightarrow> real \<Rightarrow> real option" where
  "ecf_adjusted_of ecf_2026 user_tcv =
     (case ecf_2026 of
        Some e \<Rightarrow> if e \<noteq> 0 \<and> e < 1 then Some (user_tcv * e) else None
      | None \<Rightarrow> None)"

definition recommended_sev :: "real \<Rightarrow> int" where
  "recommended_sev rec_low = py_round (rec_low / 2 / 5000) * 5000"

definition generate_appeal_lines ::
  "string \<Rightarrow> string \<Rightarrow> real \<Rightarrow> (int \<times> real option) list \<Rightarrow> sales_stats \<Rightarrow> land_trend list
     \<Rightarrow> (int \<times> int) list \<Rightarrow> ecf_property list \<Rightarrow> comp_sale list option
     \<Rightarrow> PropertyData option \<Rightarrow> py_error + string list" where
  "generate_appeal_lines area_code' subdivision' user_sev ecf_trend sales_stats land_trends
       coverage ecf_properties sales_df prop =
     (let user_tcv = homeowner_tcv user_sev;
          ecf_2026 = trend_get ecf_trend 2026;
          ecf_adjusted = ecf_adjusted_of ecf_2026 user_tcv
      in bind_res (compute_recommended_values ecf_2026 user_tcv sales_stats)
           (\<lambda>(rec_low, rec_high).
              let rec_sev = recommended_sev rec_low;
                  no_appeal = (of_int rec_sev \<ge> user_sev)
              in if no_appeal
                 then not_recommended_lines area_code' subdivision' user_sev user_tcv ecf_2026
                        ecf_adjusted sales_stats prop
                 else
                   bind_res (evidence_ecf_lines 1 area_code' user_tcv ecf_trend ecf_2026
                               ecf_adjusted)
                     (\<lambda>(ev1, evidence_num).
                        case evidence_sales_lines evidence_num area_code' user_tcv sales_stats
                               ecf_properties sales_df of
                          (ev2, evidence_num) \<Rightarrow>
                        case evidence_land_lines evidence_num area_code' ecf_2026 land_trends of
                          (ev3, evidence_num) \<Rightarrow>
                        Inr (header_lines
                             @ property_information_lines area_code' subdivision' prop
                             @ assessment_values_lines user_sev user_tcv rec_sev prop
                             @ grounds_lines area_code' subdivision' user_sev user_tcv rec_sev
                             @ ev1 @ ev2 @ ev3
                             @ conclusion_lines area_code' user_sev rec_sev ecf_2026
                                 ecf_adjusted sales_stats
                             @ legal_basis_lines
                             @ petitioner_lines prop
                             @ footer_lines))))"

definition generate_appeal_summary ::
  "string \<Rightarrow> string \<Rightarrow> real \<Rightarrow> (int \<times> real option) list \<Rightarrow> sales_stats \<Rightarrow> land_trend list
     \<Rightarrow> (int \<times> int) list \<Rightarrow> ecf_property list \<Rightarrow> comp_sale list option
     \<Rightarrow> PropertyData option \<Rightarrow> py_error + string" where
  "generate_appeal_summary area_code' subdivision' user_sev ecf_trend sales_stats land_trends
       coverage ecf_properties sales_df prop =
     bind_res (generate_appeal_lines area_code' subdivision' user_sev ecf_trend sales_stats
                 land_trends coverage ecf_properties sales_df prop)
       (\<lambda>L. Inr (join_lines L))"

section \<open>Yearly tables\<close>

text \<open>
  The loaders read every column as text, trim the area codes, and turn the numeric
  columns into floats with unreadable cells coerced to NaN. The tables below are the
  frames after that step. A flag \<open>has_\<dots>\<close> says whether the frame has the column; the
  cells of a column the frame lacks are not read.
\<close>

record sale_row = comp_sale +
  ECF_Area :: "string option"
  Terms_of_Sale :: "string option"

record sales_table =
  has_ECF_Area :: bool
  has_Terms_of_Sale :: bool
  has_Parcel_Number :: bool
  has_Street_Address :: bool
  has_Sale_Date :: bool
  sales_rows :: "sale_row list"

record ecf_row =
  ea_ECF_Area_Code :: "string option"
  ea_ECF_Area :: "string option"
  ea_Street_Address :: "string option"
  ea_Parcel_Number :: "string option"
  ea_Sale_Price :: "real option"
  ea_Cost_Man :: "real option"
  ea_ECF :: "real option"

record ecf_table =
  ea_has_ECF_Area_Code :: bool
  ea_has_ECF_Area :: bool
  ea_has_Street_Address :: bool
  ea_has_Parcel_Number :: bool
  ea_has_Sale_Price :: bool
  ea_has_Cost_Man :: bool
  ea_has_ECF :: bool
  ea_rows :: "ecf_row list"

record summary_row =
  es_ECF_Area :: "string option"
  es_Subdivision :: "string option"
  es_Ave_ECF :: "real option"

record land_row =
  la_Area_Code :: "string option"
  la_ECF_Area :: "string option"
  la_Land_Value_Prior :: "real option"
  la_Land_Value_Current :: "real option"

record land_table =
  la_has_Area_Code :: bool
  la_has_ECF_Area :: bool
  la_has_Land_Value_Prior :: bool
  la_has_Land_Value_Current :: bool
  la_rows :: "land_row list"

record adj_row =
  adj_Area_Code :: "string option"
  adj_Adjust_Factor :: "real option"

record adj_table =
  adj_has_Area_Code :: bool
  adj_has_Adjust_Factor :: bool
  adj_rows :: "adj_row list"

text \<open>\<^verbatim>\<open>Series.dropna()\<close>\<close>

fun dropna :: "'a option list \<Rightarrow> 'a list" where
  "dropna [] = []"
| "dropna (None # xs) = dropna xs"
| "dropna (Some x # xs) = x # dropna xs"

section \<open>Loader steps on the cost-factor columns\<close>

text \<open>\<^verbatim>\<open>_load_ecf_analysis\<close>: \<^verbatim>\<open>df.loc[~df["ECF"].between(0.1, 5.0), "ECF"] = pd.NA\<close>, done
  when the frame has the column. \<^verbatim>\<open>between\<close> includes both ends.\<close>

definition between :: "real \<Rightarrow> real \<Rightarrow> real option \<Rightarrow> bool" where
  "between lo hi v = (case v of Some x \<Rightarrow> lo \<le> x \<and> x \<le> hi | None \<Rightarrow> False)"

definition load_ecf_analysis_table :: "ecf_table \<Rightarrow> ecf_table" where
  "load_ecf_analysis_table df =
     (if ea_has_ECF df
      then df\<lparr>ea_rows :=
                map (\<lambda>r. if \<not> between (1 / 10) 5 (ea_ECF r) then r\<lparr>ea_ECF := None\<rparr> else r)
                  (ea_rows df)\<rparr>
      else df)"

definition load_ecf_analysis :: "(int \<times> ecf_table) list \<Rightarrow> (int \<times> ecf_table) list" where
  "load_ecf_analysis files = map (\<lambda>(y, df). (y, load_ecf_analysis_table df)) files"

text \<open>\<^verbatim>\<open>_load_ecf_summaries\<close>: the rows are grouped by area code (rows without one are
  dropped, the groups come in sorted order), and each group keeps its first non-missing
  subdivision and its first non-missing average. No domain restriction is applied to
  \<^verbatim>\<open>Ave_ECF\<close>.\<close>

fun first_valid :: "'a option list \<Rightarrow> 'a option" where
  "first_valid [] = None"
| "first_valid (None # xs) = first_valid xs"
| "first_valid (Some x # xs) = Some x"

definition load_ecf_summaries_table :: "summary_row list \<Rightarrow> summary_row list" where
  "load_ecf_summaries_table df =
     map (\<lambda>k. let grp = filter (\<lambda>r. es_ECF_Area r = Some k) df
              in \<lparr>es_ECF_Area = Some k,
                  es_Subdivision = first_valid (map es_Subdivision grp),
                  es_Ave_ECF = first_valid (map es_Ave_ECF grp)\<rparr>)
       (sort (remdups (dropna (map es_ECF_Area df))))"

definition load_ecf_summaries ::
  "(int \<times> summary_row list) list \<Rightarrow> (int \<times> summary_row list) list" where
  "load_ecf_summaries files = map (\<lambda>(y, df). (y, load_ecf_summaries_table df)) files"

section \<open>Evidence aggregator\<close>

subsection \<open>Cost-factor views\<close>

definition get_ecf_trend ::
  "(int \<times> summary_row list) list \<Rightarrow> string \<Rightarrow> (int \<times> real option) list" where
  "get_ecf_trend ecf_summaries area_code' =
     fold (\<lambda>(y, df) trend.
             let match = filter (\<lambda>r. es_ECF_Area r = Some area_code') df
             in case match of
                  r # _ \<Rightarrow>
                    (case es_Ave_ECF r of
                       Some v \<Rightarrow> dict_set trend y (Some v)
                     | None \<Rightarrow> dict_set trend y None)
                | [] \<Rightarrow> dict_set trend y None)
       ecf_summaries []"

text \<open>\<^verbatim>\<open>str(row.get(col, "")).strip()\<close> for a text column that the frame may lack.\<close>

definition get_str :: "bool \<Rightarrow> string option \<Rightarrow> string" where
  "get_str has_col cell = py_strip (if has_col then str_cell cell else [])"

text \<open>\<^verbatim>\<open>row.get(col)\<close> for a numeric column that the frame may lack.\<close>

definition get_num :: "bool \<Rightarrow> real option \<Rightarrow> real option" where
  "get_num has_col cell = (if has_col then cell else None)"

definition ecf_properties_of_year ::
  "string \<Rightarrow> int \<Rightarrow> ecf_table \<Rightarrow> py_error + ecf_property list" where
  "ecf_properties_of_year area_code' y df =
     (if \<not> ea_has_ECF_Area_Code df \<and> \<not> ea_has_ECF_Area df then Inr []
      else
        let area_df = (if ea_has_ECF_Area_Code df
                       then filter (\<lambda>r. ea_ECF_Area_Code r = Some area_code') (ea_rows df)
                       else filter (\<lambda>r. ea_ECF_Area r = Some area_code') (ea_rows df))
        in if \<not> ea_has_ECF df then Inl KeyError
           else
             let area_df = filter (\<lambda>r. ea_ECF r \<noteq> None) area_df
             in Inr (map (\<lambda>row.
                       \<lparr>ep_year = y,
                        ep_address = get_str (ea_has_Street_Address df) (ea_Street_Address row),
                        ep_parcel = get_str (ea_has_Parcel_Number df) (ea_Parcel_Number row),
                        ep_sale_price = get_num (ea_has_Sale_Price df) (ea_Sale_Price row),
                        ep_cost_man = get_num (ea_has_Cost_Man df) (ea_Cost_Man row),
                        ep_ecf = ea_ECF row\<rparr>) area_df))"

fun get_ecf_properties ::
  "(int \<times> ecf_table) list \<Rightarrow> string \<Rightarrow> py_error + ecf_property list" where
  "get_ecf_properties [] area_code' = Inr []"
| "get_ecf_properties ((y, df) # ecf_analysis) area_code' =
     bind_res (ecf_properties_of_year area_code' y df) (\<lambda>rows.
     bind_res (get_ecf_properties ecf_analysis area_code') (\<lambda>rest. Inr (rows @ rest)))"

subsection \<open>Comparable sales\<close>

definition LOT_ONLY_THRESHOLD :: real where
  "LOT_ONLY_THRESHOLD = 150000"

text \<open>\<^verbatim>\<open>str.contains("ARM", na=False, case=False)\<close>: the text contains \<^verbatim>\<open>ARM\<close> in any
  mix of cases; a missing cell counts as no.\<close>

fun contains :: "string \<Rightarrow> string \<Rightarrow> bool" where
  "contains pat [] = (pat = [])"
| "contains pat (c # cs) = (take (length pat) (c # cs) = pat \<or> contains pat cs)"

definition contains_ARM :: "string option \<Rightarrow> bool" where
  "contains_ARM cell = (case cell of Some s \<Rightarrow> contains ''ARM'' (py_upper s) | None \<Rightarrow> False)"

definition at_least_threshold :: "real option \<Rightarrow> bool" where
  "at_least_threshold cell =
     (case cell of Some p \<Rightarrow> p \<ge> LOT_ONLY_THRESHOLD | None \<Rightarrow> False)"

text \<open>The rows that one year's table contributes: the three filters on the frame as it
  is, then the six columns. Selecting a column the frame lacks raises KeyError, which
  happens only when a row is left.\<close>

definition filtered_rows :: "string \<Rightarrow> sales_table \<Rightarrow> sale_row list" where
  "filtered_rows area_code' df =
     (let area_df = filter (\<lambda>r. ECF_Area r = Some area_code') (sales_rows df);
          area_df = (if has_Terms_of_Sale df
                     then filter (\<lambda>r. contains_ARM (Terms_of_Sale r)) area_df
                     else area_df)
      in filter (\<lambda>r. at_least_threshold (Adj_Sale r)) area_df)"

definition sales_of_year :: "string \<Rightarrow> sales_table \<Rightarrow> py_error + comp_sale list" where
  "sales_of_year area_code' df =
     (if \<not> has_ECF_Area df then Inr []
      else
        let area_df = filtered_rows area_code' df
        in if length area_df > 0
           then (if has_Parcel_Number df \<and> has_Street_Address df \<and> has_Sale_Date df
                 then Inr (map comp_sale.truncate area_df)
                 else Inl KeyError)
           else Inr [])"

fun all_sales :: "(int \<times> sales_table) list \<Rightarrow> string \<Rightarrow> py_error + comp_sale list" where
  "all_sales [] area_code' = Inr []"
| "all_sales ((y, df) # sales) area_code' =
     bind_res (sales_of_year area_code' df) (\<lambda>rows.
     bind_res (all_sales sales area_code') (\<lambda>rest. Inr (rows @ rest)))"

text \<open>
  The normalized date of a sale,
  \<^verbatim>\<open>pd.to_datetime(..., format="mixed", dayfirst=False).dt.strftime("%Y-%m-%d")\<close>, is the
  date parser of pandas, a parameter \<open>norm_date\<close> of the model: on the text of a cell it
  raises (\<^term>\<open>Inl e\<close>), yields no date (\<^term>\<open>Inr None\<close>), or yields the date written as
  year-month-day. A missing cell has no date, and a key with a missing part is missing.
\<close>

type_synonym date_parser = "string \<Rightarrow> py_error + string option"

definition dedup_key :: "date_parser \<Rightarrow> comp_sale \<Rightarrow> py_error + string option" where
  "dedup_key norm_date row =
     bind_res (case Sale_Date row of None \<Rightarrow> Inr None | Some s \<Rightarrow> norm_date s)
       (\<lambda>nd. Inr (case (Parcel_Number row, nd) of
                    (Some p, Some d) \<Rightarrow> Some (py_strip p @ ''_'' @ d)
                  | _ \<Rightarrow> None))"

fun with_keys ::
  "date_parser \<Rightarrow> comp_sale list \<Rightarrow> py_error + (comp_sale \<times> string option) list" where
  "with_keys norm_date [] = Inr []"
| "with_keys norm_date (row # rows) =
     bind_res (dedup_key norm_date row) (\<lambda>k.
     bind_res (with_keys norm_date rows) (\<lambda>rest. Inr ((row, k) # rest)))"

text \<open>\<^verbatim>\<open>drop_duplicates(subset=key, keep="last")\<close>: a row stays when no later row has its
  key; missing keys count as equal to each other.\<close>

fun drop_duplicates_last :: "('a \<times> 'k) list \<Rightarrow> ('a \<times> 'k) list" where
  "drop_duplicates_last [] = []"
| "drop_duplicates_last (x # xs) =
     (if snd x \<in> snd ` set xs then drop_duplicates_last xs else x # drop_duplicates_last xs)"

text \<open>\<^verbatim>\<open>sort_values("Sale_Date", ascending=False)\<close>: by the text of the date, greatest
  first, rows without a date last. The frame is reversed, sorted upwards and reversed
  again; rows with equal dates are given here in the order a stable sort leaves them.\<close>

definition sort_values_desc :: "comp_sale list \<Rightarrow> comp_sale list" where
  "sort_values_desc rows =
     rev (sort_key (\<lambda>r. str_cell (Sale_Date r)) (rev (filter (\<lambda>r. Sale_Date r \<noteq> None) rows)))
     @ filter (\<lambda>r. Sale_Date r = None) rows"

definition get_comparable_sales ::
  "date_parser \<Rightarrow> (int \<times> sales_table) list \<Rightarrow> string \<Rightarrow> py_error + comp_sale list" where
  "get_comparable_sales norm_date sales area_code' =
     bind_res (all_sales sales area_code') (\<lambda>result.
       if result = [] then Inr []
       else bind_res (with_keys norm_date result) (\<lambda>keyed.
              Inr (sort_values_desc (map fst (drop_duplicates_last keyed)))))"

text \<open>The pair that identifies a sale: the trimmed parcel number and the normalized
  date, when the row has both.\<close>

definition sale_pair :: "date_parser \<Rightarrow> comp_sale \<Rightarrow> (string \<times> string) option" where
  "sale_pair norm_date row =
     (case (Parcel_Number row, Sale_Date row) of
        (Some p, Some s) \<Rightarrow>
          (case norm_date s of Inr (Some d) \<Rightarrow> Some (py_strip p, d) | _ \<Rightarrow> None)
      | _ \<Rightarrow> None)"

text \<open>The rows that pass the filters, in loading order: year by year as the dictionary
  is iterated, and within a year in the order of the table.\<close>

definition passing_rows :: "(int \<times> sales_table) list \<Rightarrow> string \<Rightarrow> comp_sale list" where
  "passing_rows sales area_code' =
     concat (map (\<lambda>(y, df). if has_ECF_Area df
                            then map comp_sale.truncate (filtered_rows area_code' df)
                            else []) sales)"

subsection \<open>Sales statistics\<close>

text \<open>\<^verbatim>\<open>Series.median()\<close> of a series that has a value and no missing one; it is
  called on such series only.\<close>

definition series_median :: "real list \<Rightarrow> real" where
  "series_median xs =
     (let s = sort xs; n = length s
      in if odd n then s ! (n div 2) else (s ! (n div 2 - 1) + s ! (n div 2)) / 2)"

definition compute_sales_stats :: "comp_sale list \<Rightarrow> real \<Rightarrow> sales_stats" where
  "compute_sales_stats sales_df user_tcv =
     (if sales_df = [] then CountOnly
      else
        let prices = dropna (map Adj_Sale sales_df);
            count' = int (length prices)
        in case prices of
             [] \<Rightarrow> NoPrices
           | p # ps \<Rightarrow>
               (let mean' = sum_list prices / of_int count';
                    median' = series_median prices;
                    min_price' = fold min ps p;
                    max_price' = fold max ps p;
                    pct_below_tcv' =
                      (if count' > 0
                       then of_nat (length (filter (\<lambda>x. x < user_tcv) prices)) / of_int count' * 100
                       else 0)
                in Stats \<lparr>count = count',
                          mean = mean',
                          median = median',
                          min_price = min_price',
                          max_price = max_price',
                          pct_below_tcv = pct_below_tcv',
                          pct_above_tcv = 100 - pct_below_tcv',
                          delta_from_median = user_tcv - median',
                          delta_pct = (if median' > 0
                                       then (user_tcv - median') / median' * 100 else 0)\<rparr>))"

subsection \<open>Sales-study coverage\<close>

definition check_sales_coverage :: "(int \<times> sales_table) list \<Rightarrow> string \<Rightarrow> (int \<times> int) list" where
  "check_sales_coverage sales area_code' =
     fold (\<lambda>(y, df) coverage.
             if \<not> has_ECF_Area df then dict_set coverage y 0
             else dict_set coverage y
                    (int (length (filter (\<lambda>r. ECF_Area r = Some area_code') (sales_rows df)))))
       sales []"

text \<open>The coverage count in the specification's words: the number of the year's rows
  whose area is the area code, zero when the table has no area column.\<close>

definition area_count :: "string \<Rightarrow> sales_table \<Rightarrow> int" where
  "area_count a df =
     (if has_ECF_Area df
      then int (length (filter (\<lambda>r. ECF_Area r = Some a) (sales_rows df))) else 0)"

subsection \<open>Land-value trend\<close>

text \<open>\<^verbatim>\<open>Series.mode()\<close>: the values that occur most often, in ascending order. It has at
  least one entry whenever the series has one.\<close>

definition series_mode :: "real list \<Rightarrow> real list" where
  "series_mode vals =
     (let top = fold max (map (count_list vals) vals) 0
      in sort (remdups (filter (\<lambda>v. count_list vals v = top) vals)))"

text \<open>The land value reported for one column of the area's rows.\<close>

definition land_value_of :: "real option list \<Rightarrow> real option" where
  "land_value_of col =
     (let vals = dropna col
      in if length vals > 0
         then (if length (series_mode vals) > 0
               then (case series_mode vals of m # _ \<Rightarrow> Some m | [] \<Rightarrow> None)
               else Some (series_median vals))
         else None)"

definition strip_cell :: "string option \<Rightarrow> string option" where
  "strip_cell cell = map_option py_strip cell"

text \<open>The rows of the land table for the area: by \<^verbatim>\<open>Area_Code\<close> when the frame has
  it, else by \<^verbatim>\<open>ECF_Area\<close>. With neither column the mask is an empty series, which
  pandas cannot align with a frame that has rows.\<close>

definition land_area_rows :: "land_table \<Rightarrow> string \<Rightarrow> py_error + land_row list" where
  "land_area_rows land_df area_code' =
     (if la_has_Area_Code land_df
      then Inr (filter (\<lambda>r. strip_cell (la_Area_Code r) = Some area_code') (la_rows land_df))
      else if la_has_ECF_Area land_df
      then Inr (filter (\<lambda>r. strip_cell (la_ECF_Area r) = Some area_code') (la_rows land_df))
      else if la_rows land_df = [] then Inr [] else Inl IndexingError)"

definition land_values_of_year ::
  "(int \<times> land_table) list \<Rightarrow> string \<Rightarrow> int \<Rightarrow> py_error + (real option \<times> real option)" where
  "land_values_of_year land area_code' y =
     (case dict_get land y of
        None \<Rightarrow> Inr (None, None)
      | Some land_df \<Rightarrow>
          bind_res (land_area_rows land_df area_code') (\<lambda>land_area.
            if length land_area > 0
            then Inr (if la_has_Land_Value_Prior land_df
                      then land_value_of (map la_Land_Value_Prior land_area) else None,
                      if la_has_Land_Value_Current land_df
                      then land_value_of (map la_Land_Value_Current land_area) else None)
            else Inr (None, None)))"

definition land_trend_of_year ::
  "(int \<times> adj_table) list \<Rightarrow> (int \<times> land_table) list \<Rightarrow> string \<Rightarrow> int
     \<Rightarrow> py_error + land_trend list" where
  "land_trend_of_year land_adj land area_code' y =
     (case dict_get land_adj y of
        None \<Rightarrow> Inr []
      | Some df \<Rightarrow>
          if \<not> adj_has_Area_Code df then Inl KeyError
          else
            (case filter (\<lambda>r. adj_Area_Code r = Some area_code') (adj_rows df) of
               [] \<Rightarrow> Inr []
             | r # _ \<Rightarrow>
                 (let factor = (if adj_has_Adjust_Factor df then adj_Adjust_Factor r else None)
                  in bind_res (land_values_of_year land area_code' y) (\<lambda>(prior_lv', current_lv').
                       Inr [\<lparr>lt_year = y,
                             adjust_factor = factor,
                             prior_lv = prior_lv',
                             current_lv = current_lv'\<rparr>]))))"

fun land_trend_loop ::
  "int list \<Rightarrow> (int \<times> adj_table) list \<Rightarrow> (int \<times> land_table) list \<Rightarrow> string
     \<Rightarrow> py_error + land_trend list" where
  "land_trend_loop [] land_adj land area_code' = Inr []"
| "land_trend_loop (y # ys) land_adj land area_code' =
     bind_res (land_trend_of_year land_adj land area_code' y) (\<lambda>rows.
     bind_res (land_trend_loop ys land_adj land area_code') (\<lambda>rest. Inr (rows @ rest)))"

definition get_land_value_trends ::
  "(int \<times> adj_table) list \<Rightarrow> (int \<times> land_table) list \<Rightarrow> string \<Rightarrow> py_error + land_trend list" where
  "get_land_value_trends land_adj land area_code' =
     land_trend_loop [2024, 2025, 2026] land_adj land area_code'"

section \<open>Record-card parser\<close>

subsection \<open>Library functions\<close>

text \<open>
  The regular-expression engine and \<^verbatim>\<open>float\<close> are parameters of the model, gathered
  in one record. A search yields the groups of the first match: \<open>re_search\<close> the first
  group, \<open>re_search2\<close> the first two, \<open>re_search_i\<close> the first group under
  \<^verbatim>\<open>re.IGNORECASE\<close>, \<open>re_match\<close> the first group of a match at the start,
  \<open>re_finditer\<close> the five groups of every match in order, and \<open>re_sub\<close> takes pattern,
  replacement and text. \<open>py_float\<close> is \<^verbatim>\<open>float(s)\<close>, None when it raises ValueError.
  The patterns are the source's, character by character.
\<close>

record re_lib =
  re_search :: "string \<Rightarrow> string \<Rightarrow> string option"
  re_search2 :: "string \<Rightarrow> string \<Rightarrow> (string \<times> string) option"
  re_search_i :: "string \<Rightarrow> string \<Rightarrow> string option"
  re_match :: "string \<Rightarrow> string \<Rightarrow> string option"
  re_finditer :: "string \<Rightarrow> string \<Rightarrow> (string \<times> string \<times> string \<times> string \<times> string) list"
  re_sub :: "string \<Rightarrow> string \<Rightarrow> string \<Rightarrow> string"
  py_float :: "string \<Rightarrow> real option"

definition bslash :: string where
  "bslash = [CHR 0x5C]"

definition PARCEL_PATTERN :: string where
  "PARCEL_PATTERN =
     ''Parcel Number:'' @ bslash @ ''s*(L'' @ bslash @ ''s*-['' @ bslash @ ''d'' @ bslash
     @ ''s-]+)''"

definition ADDRESS_PATTERN :: string where
  "ADDRESS_PATTERN =
     ''(?:Property Address|4'' @ bslash @ ''d{3}|[A-Z]'' @ bslash @ ''d{3,4})'' @ bslash
     @ ''s*'' @ bslash @ ''n?'' @ bslash @ ''s*('' @ bslash @ ''d+'' @ bslash @ ''s+[A-Z][A-Z''
     @ bslash @ ''s]+(?:DR|LN|CT|RD|AVE|WAY|BLVD|CIR|ST|PL|TRL))''"

definition ADDRESS_FALLBACK_PATTERN :: string where
  "ADDRESS_FALLBACK_PATTERN =
     bslash @ ''b('' @ bslash @ ''d{3,5}'' @ bslash @ ''s+[A-Z][A-Z'' @ bslash
     @ ''s]+(?:DR|LN|CT|RD|AVE|WAY|BLVD|CIR|ST|PL|TRL))'' @ bslash @ ''b''"

definition LAND_TABLE_PATTERN :: string where
  "LAND_TABLE_PATTERN =
     ''Land'' @ bslash @ ''s+(?:Value'' @ bslash @ ''s+Estimates'' @ bslash @ ''s+for''
     @ bslash @ ''s+)?Land'' @ bslash @ ''s+Table'' @ bslash @ ''s+('' @ bslash @ ''S+?)''
     @ bslash @ ''.('' @ bslash @ ''S.*?)(?:'' @ bslash @ ''n|$)''"

definition SUBDIVISION_PREFIX_PATTERN :: string where
  "SUBDIVISION_PREFIX_PATTERN =
     ''^[A-Z0-9]+-(.+)''"

definition TCV_PATTERN :: string where
  "TCV_PATTERN =
     ''2026'' @ bslash @ ''s+Est'' @ bslash @ ''s+TCV'' @ bslash @ ''s+(['' @ bslash @ ''d,''
     @ bslash @ ''s]+)''"

definition LAND_VALUE_PATTERN :: string where
  "LAND_VALUE_PATTERN =
     ''Total'' @ bslash @ ''s+Est'' @ bslash @ ''.'' @ bslash @ ''s+Land'' @ bslash
     @ ''s+value'' @ bslash @ ''s*='' @ bslash @ ''s*(['' @ bslash @ ''d,'' @ bslash @ ''s]+)''"

definition OCR_NUMBER_PATTERN :: string where
  "OCR_NUMBER_PATTERN =
     ''('' @ bslash @ ''d)'' @ bslash @ ''s*,'' @ bslash @ ''s*('' @ bslash @ ''d)''"

definition OCR_NUMBER_REPL :: string where
  "OCR_NUMBER_REPL =
     bslash @ ''1,'' @ bslash @ ''2''"

definition HISTORY_PATTERN :: string where
  "HISTORY_PATTERN =
     ''[|'' @ bslash @ ''(]?'' @ bslash @ ''s*(202[3-6])'' @ bslash @ ''s+(['' @ bslash
     @ ''d,]+)'' @ bslash @ ''s+(['' @ bslash @ ''d,]+)'' @ bslash @ ''s+(['' @ bslash
     @ ''d,]+)'' @ bslash @ ''s+(['' @ bslash @ ''d,]+)[cCsS]''"

definition STYLE_PATTERN :: string where
  "STYLE_PATTERN =
     ''Building'' @ bslash @ ''s+Style:'' @ bslash
     @ ''s*((?:TWO|ONE|TRI|BI|SPLIT|RANCH|CAPE|COLONIAL|BUNGALOW)['' @ bslash @ ''w-]*)''"

definition STYLE_FALLBACK_PATTERN :: string where
  "STYLE_FALLBACK_PATTERN =
     ''Single'' @ bslash @ ''s+Family'' @ bslash
     @ ''s+((?:TWO|ONE|TRI|BI|SPLIT|RANCH|CAPE|COLONIAL|BUNGALOW)['' @ bslash @ ''w-]*)''"

definition BUILT_PATTERN :: string where
  "BUILT_PATTERN =
     ''(?:Blt|B[Il]t)'' @ bslash @ ''s+('' @ bslash @ ''d{4})''"

definition BUILT_ACTUAL_PATTERN :: string where
  "BUILT_ACTUAL_PATTERN =
     ''('' @ bslash @ ''d{4})'' @ bslash @ ''s*(?:Actua|Actual)''"

definition YR_BUILT_PATTERN :: string where
  "YR_BUILT_PATTERN =
     ''Yr'' @ bslash @ ''s+Built.*?('' @ bslash @ ''d{4})''"

definition CONDITION_PATTERN :: string where
  "CONDITION_PATTERN =
     ''Condition:'' @ bslash @ ''s*('' @ bslash @ ''w+)''"

definition EFFEC_AGE_PATTERN :: string where
  "EFFEC_AGE_PATTERN =
     ''Effec'' @ bslash @ ''.'' @ bslash @ ''s*Age:'' @ bslash @ ''s*('' @ bslash @ ''d+)''"

definition FLOOR_AREA_PATTERN :: string where
  "FLOOR_AREA_PATTERN =
     ''Floor'' @ bslash @ ''s+Area:'' @ bslash @ ''s*('' @ bslash @ ''d['' @ bslash
     @ ''d,]+)''"

definition GROUND_AREA_PATTERN :: string where
  "GROUND_AREA_PATTERN =
     ''Ground'' @ bslash @ ''s+Area'' @ bslash @ ''s*='' @ bslash @ ''s*('' @ bslash @ ''d[''
     @ bslash @ ''d,]+)'' @ bslash @ ''s*SF''"

definition BASEMENT_PATTERN :: string where
  "BASEMENT_PATTERN =
     ''Basement:'' @ bslash @ ''s*('' @ bslash @ ''d['' @ bslash @ ''d,]+)'' @ bslash
     @ ''s*S'' @ bslash @ ''.?F'' @ bslash @ ''.?''"

definition BASE_NEW_PATTERN :: string where
  "BASE_NEW_PATTERN =
     ''Total'' @ bslash @ ''s+Base'' @ bslash @ ''s+New:'' @ bslash @ ''s*(['' @ bslash
     @ ''d,'' @ bslash @ ''s]+)''"

definition DEPR_COST_PATTERN :: string where
  "DEPR_COST_PATTERN =
     ''Total'' @ bslash @ ''s+Depr'' @ bslash @ ''s+Cost:'' @ bslash @ ''s*(['' @ bslash
     @ ''d,'' @ bslash @ ''s]+)''"

definition ECF_PATTERN :: string where
  "ECF_PATTERN =
     ''(?:E'' @ bslash @ ''.?C'' @ bslash @ ''.?F'' @ bslash @ ''.?|X)'' @ bslash @ ''s+(0''
     @ bslash @ ''.'' @ bslash @ ''d{2,4})''"

definition EST_TCV_PATTERN :: string where
  "EST_TCV_PATTERN =
     ''Estimated'' @ bslash @ ''s+T'' @ bslash @ ''.?[cC]'' @ bslash @ ''.?V'' @ bslash
     @ ''.?:?'' @ bslash @ ''s*(['' @ bslash @ ''d,'' @ bslash @ ''s]+)''"

subsection \<open>Text helpers\<close>

definition is_digit :: "char \<Rightarrow> bool" where
  "is_digit c = (CHR ''0'' \<le> c \<and> c \<le> CHR ''9'')"

definition is_ascii_letter :: "char \<Rightarrow> bool" where
  "is_ascii_letter c = ((CHR ''a'' \<le> c \<and> c \<le> CHR ''z'') \<or> (CHR ''A'' \<le> c \<and> c \<le> CHR ''Z''))"

definition lower_char :: "char \<Rightarrow> char" where
  "lower_char c =
     (case map_of (zip ''ABCDEFGHIJKLMNOPQRSTUVWXYZ'' ''abcdefghijklmnopqrstuvwxyz'') c of
        Some l \<Rightarrow> l
      | None \<Rightarrow> c)"

text \<open>\<^verbatim>\<open>int(s)\<close> on text: surrounding white space is dropped; an optional sign, then
  digits, single underscores allowed between digits. None stands for ValueError.\<close>

definition valid_digits :: "string \<Rightarrow> bool" where
  "valid_digits body =
     (body \<noteq> [] \<and> list_all (\<lambda>c. is_digit c \<or> c = CHR ''_'') body
      \<and> is_digit (hd body) \<and> is_digit (last body) \<and> \<not> contains ''__'' body)"

definition digits_value :: "string \<Rightarrow> nat" where
  "digits_value body =
     fold (\<lambda>c n. 10 * n + (of_char c - 48)) (filter (\<lambda>c. c \<noteq> CHR ''_'') body) 0"

definition int_of_str :: "string \<Rightarrow> int option" where
  "int_of_str s =
     (let t = py_strip s;
          negative = (t \<noteq> [] \<and> hd t = CHR ''-'');
          body = (if t \<noteq> [] \<and> (hd t = CHR ''-'' \<or> hd t = CHR ''+'') then tl t else t)
      in if valid_digits body
         then Some (if negative then - int (digits_value body) else int (digits_value body))
         else None)"

text \<open>\<^verbatim>\<open>int(m.group(1))\<close>, raising ValueError.\<close>

definition int_or_raise :: "string \<Rightarrow> py_error + int" where
  "int_or_raise s = (case int_of_str s of Some n \<Rightarrow> Inr n | None \<Rightarrow> Inl ValueError)"

text \<open>\<^verbatim>\<open>s.split()\<close>: the maximal runs of characters that are not white space.\<close>

fun split_acc :: "string \<Rightarrow> string \<Rightarrow> string list" where
  "split_acc cur [] = (if cur = [] then [] else [rev cur])"
| "split_acc cur (c # cs) =
     (if is_space c
      then (if cur = [] then split_acc [] cs else rev cur # split_acc [] cs)
      else split_acc (c # cur) cs)"

definition py_split :: "string \<Rightarrow> string list" where
  "py_split s = split_acc [] s"

text \<open>\<^verbatim>\<open>s.capitalize()\<close> and \<^verbatim>\<open>s.replace(a, b)\<close> for single characters.\<close>

definition py_capitalize :: "string \<Rightarrow> string" where
  "py_capitalize s = (case s of [] \<Rightarrow> [] | c # cs \<Rightarrow> upper_char c # map lower_char cs)"

definition replace_char :: "char \<Rightarrow> char \<Rightarrow> string \<Rightarrow> string" where
  "replace_char a b s = map (\<lambda>c. if c = a then b else c) s"

subsection \<open>The parser\<close>

text \<open>\<^verbatim>\<open>_clean_number\<close>: the two substitutions delete every comma, white-space character
  and dollar sign, then the letters at the end.\<close>

definition clean_number :: "string \<Rightarrow> int option" where
  "clean_number s =
     (if s = [] then None
      else
        let cleaned = filter (\<lambda>c. \<not> (c = CHR '','' \<or> is_space c \<or> c = CHR ''$'')) s;
            cleaned = rev (dropWhile is_ascii_letter (rev cleaned))
        in int_of_str cleaned)"

text \<open>\<^verbatim>\<open>_clean_number(...) or 0\<close>\<close>

definition clean_number_or_0 :: "string \<Rightarrow> int" where
  "clean_number_or_0 s = (case clean_number s of Some n \<Rightarrow> n | None \<Rightarrow> 0)"

definition normalize_ocr_numbers :: "re_lib \<Rightarrow> string \<Rightarrow> string" where
  "normalize_ocr_numbers re text = re_sub re OCR_NUMBER_PATTERN OCR_NUMBER_REPL text"

definition default_PropertyData :: PropertyData where
  "default_PropertyData =
     \<lparr>parcel_number = [], address = [], area_code = [], subdivision = [],
      sev_2026 = 0, tcv_2026 = 0, land_value = 0, ecf = None,
      floor_area = 0, ground_area = 0, basement_sf = 0, year_built = 0,
      condition = [], style = [], effective_age = 0,
      total_base_new = 0, total_depr_cost = 0, estimated_tcv_cost = 0,
      assessment_history = [], raw_text_page1 = [], raw_text_page2 = []\<rparr>"

text \<open>One match of the history pattern: the row is appended, and a row of 2026 sets the
  headline assessed value.\<close>

definition history_step ::
  "string \<times> string \<times> string \<times> string \<times> string \<Rightarrow> PropertyData \<Rightarrow> py_error + PropertyData" where
  "history_step m prop =
     (case m of (g1, g2, g3, g4, g5) \<Rightarrow>
        bind_res (int_or_raise g1) (\<lambda>year'.
          let ay = \<lparr>year = year',
                    hist_land_value = clean_number g2,
                    building_value = clean_number g3,
                    assessed_value = clean_number g4,
                    taxable_value = clean_number g5\<rparr>;
              prop = prop\<lparr>assessment_history := assessment_history prop @ [ay]\<rparr>
          in Inr (if year' = 2026
                  then prop\<lparr>sev_2026 := (case assessed_value ay of Some v \<Rightarrow> v | None \<Rightarrow> 0)\<rparr>
                  else prop)))"

fun history_loop ::
  "(string \<times> string \<times> string \<times> string \<times> string) list \<Rightarrow> PropertyData \<Rightarrow> py_error + PropertyData" where
  "history_loop [] prop = Inr prop"
| "history_loop (m # ms) prop = bind_res (history_step m prop) (history_loop ms)"

definition parse_assessment_history :: "re_lib \<Rightarrow> string \<Rightarrow> PropertyData \<Rightarrow> py_error + PropertyData" where
  "parse_assessment_history re text prop =
     (let norm = normalize_ocr_numbers re text
      in bind_res (history_loop (re_finditer re HISTORY_PATTERN norm) prop) (\<lambda>prop.
           Inr (prop\<lparr>assessment_history := sort_key year (assessment_history prop)\<rparr>)))"

definition parse_page1 :: "re_lib \<Rightarrow> string \<Rightarrow> PropertyData \<Rightarrow> py_error + PropertyData" where
  "parse_page1 re text prop =
     (let prop = (case re_search re PARCEL_PATTERN text of
                    Some g \<Rightarrow> prop\<lparr>parcel_number := filter (\<lambda>c. \<not> is_space c) g\<rparr>
                  | None \<Rightarrow> prop);
          prop = (case re_search re ADDRESS_PATTERN text of
                    Some g \<Rightarrow> prop\<lparr>address := join_with '' '' (py_split g)\<rparr>
                  | None \<Rightarrow>
                      (case re_search re ADDRESS_FALLBACK_PATTERN text of
                         Some g \<Rightarrow> prop\<lparr>address := join_with '' '' (py_split g)\<rparr>
                       | None \<Rightarrow> prop));
          prop = (case re_search2 re LAND_TABLE_PATTERN text of
                    Some (g1, g2) \<Rightarrow>
                      (let prop = prop\<lparr>area_code := py_strip g1\<rparr>;
                           raw_sub = py_strip g2;
                           raw_sub = (case re_match re SUBDIVISION_PREFIX_PATTERN raw_sub of
                                        Some g \<Rightarrow> py_strip g
                                      | None \<Rightarrow> raw_sub)
                       in prop\<lparr>subdivision :=
                                 py_strip (replace_char CHR ''_'' CHR '' ''
                                             (replace_char CHR ''-'' CHR '' '' raw_sub))\<rparr>)
                  | None \<Rightarrow> prop);
          prop = (case re_search re TCV_PATTERN text of
                    Some g \<Rightarrow> prop\<lparr>tcv_2026 := clean_number_or_0 g\<rparr>
                  | None \<Rightarrow> prop);
          prop = (case re_search re LAND_VALUE_PATTERN text of
                    Some g \<Rightarrow> prop\<lparr>land_value := clean_number_or_0 g\<rparr>
                  | None \<Rightarrow> prop)
      in parse_assessment_history re text prop)"

definition parse_page2 :: "re_lib \<Rightarrow> string \<Rightarrow> PropertyData \<Rightarrow> py_error + PropertyData" where
  "parse_page2 re text prop =
     (let m = (case re_search re STYLE_PATTERN text of
                 Some g \<Rightarrow> Some g
               | None \<Rightarrow> re_search_i re STYLE_FALLBACK_PATTERN text);
          prop = (case m of
                    Some g \<Rightarrow> prop\<lparr>style := py_upper (py_strip g)\<rparr>
                  | None \<Rightarrow> prop);
          m = (case re_search re BUILT_PATTERN text of
                 Some g \<Rightarrow> Some g
               | None \<Rightarrow>
                   (case re_search re BUILT_ACTUAL_PATTERN text of
                      Some g \<Rightarrow> Some g
                    | None \<Rightarrow> re_search re YR_BUILT_PATTERN text))
      in bind_res (case m of
                     Some g \<Rightarrow> bind_res (int_or_raise g) (\<lambda>n. Inr (prop\<lparr>year_built := n\<rparr>))
                   | None \<Rightarrow> Inr prop) (\<lambda>prop.
         let prop = (case re_search re CONDITION_PATTERN text of
                       Some g \<Rightarrow> prop\<lparr>condition := py_capitalize g\<rparr>
                     | None \<Rightarrow> prop)
         in bind_res (case re_search re EFFEC_AGE_PATTERN text of
                        Some g \<Rightarrow> bind_res (int_or_raise g) (\<lambda>n. Inr (prop\<lparr>effective_age := n\<rparr>))
                      | None \<Rightarrow> Inr prop) (\<lambda>prop.
         let prop = (case re_search re FLOOR_AREA_PATTERN text of
                       Some g \<Rightarrow> prop\<lparr>floor_area := clean_number_or_0 g\<rparr>
                     | None \<Rightarrow> prop);
             prop = (case re_search re GROUND_AREA_PATTERN text of
                       Some g \<Rightarrow> prop\<lparr>ground_area := clean_number_or_0 g\<rparr>
                     | None \<Rightarrow> prop);
             prop = (case re_search re BASEMENT_PATTERN text of
                       Some g \<Rightarrow> prop\<lparr>basement_sf := clean_number_or_0 g\<rparr>
                     | None \<Rightarrow> prop);
             prop = (case re_search re BASE_NEW_PATTERN text of
                       Some g \<Rightarrow> prop\<lparr>total_base_new := clean_number_or_0 g\<rparr>
                     | None \<Rightarrow> prop);
             prop = (case re_search re DEPR_COST_PATTERN text of
                       Some g \<Rightarrow> prop\<lparr>total_depr_cost := clean_number_or_0 g\<rparr>
                     | None \<Rightarrow> prop);
             prop = (case re_search re ECF_PATTERN text of
                       Some g \<Rightarrow>
                         (case py_float re g of
                            Some x \<Rightarrow> prop\<lparr>ecf := Some x\<rparr>
                          | None \<Rightarrow> prop)
                     | None \<Rightarrow> prop);
             prop = (case re_search re EST_TCV_PATTERN text of
                       Some g \<Rightarrow> prop\<lparr>estimated_tcv_cost := clean_number_or_0 g\<rparr>
                     | None \<Rightarrow> prop)
         in Inr prop)))"

text \<open>The last step of \<^verbatim>\<open>parse_rc_pdf\<close>: an assessed value that the history table
  did not give is derived from the true cash value by floor division.\<close>

definition derive_sev :: "PropertyData \<Rightarrow> PropertyData" where
  "derive_sev prop =
     (if sev_2026 prop = 0 \<and> tcv_2026 prop > 0
      then prop\<lparr>sev_2026 := tcv_2026 prop div 2\<rparr>
      else prop)"

text \<open>\<^verbatim>\<open>parse_rc_pdf\<close> on a document that opened: \<open>doc\<close> is the list of its pages and
  \<open>ocr\<close> is \<^verbatim>\<open>_ocr_page\<close>, the rendering and text recognition of one page.\<close>

definition parse_rc_pdf :: "re_lib \<Rightarrow> ('page \<Rightarrow> string) \<Rightarrow> 'page list \<Rightarrow> py_error + PropertyData" where
  "parse_rc_pdf re ocr doc =
     (let prop = default_PropertyData
      in bind_res (if length doc \<ge> 1
                   then (let text1 = ocr (doc ! 0)
                         in parse_page1 re text1 (prop\<lparr>raw_text_page1 := text1\<rparr>))
                   else Inr prop) (\<lambda>prop.
         bind_res (if length doc \<ge> 2
                   then (let text2 = ocr (doc ! 1)
                         in parse_page2 re text2 (prop\<lparr>raw_text_page2 := text2\<rparr>))
                   else Inr prop) (\<lambda>prop.
         Inr (derive_sev prop))))"

text \<open>The record as \<^verbatim>\<open>parse_rc_pdf\<close> holds it when both pages are done, before the
  last step.\<close>

definition parse_pages :: "re_lib \<Rightarrow> ('page \<Rightarrow> string) \<Rightarrow> 'page list \<Rightarrow> py_error + PropertyData" where
  "parse_pages re ocr doc =
     (let prop = default_PropertyData
      in bind_res (if length doc \<ge> 1
                   then (let text1 = ocr (doc ! 0)
                         in parse_page1 re text1 (prop\<lparr>raw_text_page1 := text1\<rparr>))
                   else Inr prop) (\<lambda>prop.
         if length doc \<ge> 2
         then (let text2 = ocr (doc ! 1)
               in parse_page2 re text2 (prop\<lparr>raw_text_page2 := text2\<rparr>))
         else Inr prop))"

section \<open>Reading the composer's output\<close>

text \<open>The two forms of the text are told apart by how they begin: the short form by a
  rule of equals signs and the line that names the verdict, the petition by its title.\<close>

definition NOT_RECOMMENDED_TITLE :: string where
  "NOT_RECOMMENDED_TITLE =
     ''APPEAL ANALYSIS '' @ [CHR 0xE2, CHR 0x80, CHR 0x94] @ '' NOT RECOMMENDED''"

definition PETITION_TITLE :: string where
  "PETITION_TITLE = ''PETITION TO THE BOARD OF REVIEW''"

definition starts_with :: "string \<Rightarrow> string \<Rightarrow> bool" where
  "starts_with prefix text = (take (length prefix) text = prefix)"

definition is_short_form :: "string \<Rightarrow> bool" where
  "is_short_form text = starts_with (rule_eq @ [CHR 0x0A] @ NOT_RECOMMENDED_TITLE @ [CHR 0x0A]) text"

definition is_petition :: "string \<Rightarrow> bool" where
  "is_petition text = starts_with (PETITION_TITLE @ [CHR 0x0A]) text"

text \<open>The lines of the two forms that show an assessed value together with a true
  cash value: the line of the short form; in the petition a row of the values table
  (current value, petitioner's value, difference), the two lines of the grounds that
  state the homeowner's values, the line of the grounds and the two lines of the
  conclusion that state the requested values.\<close>

definition your_sev_line :: "real \<Rightarrow> real \<Rightarrow> string" where
  "your_sev_line sev tcv = ''Your SEV:  $'' @ money sev @ ''  (TCV: $'' @ money tcv @ '')''"

definition table_row :: "string \<Rightarrow> real \<Rightarrow> int \<Rightarrow> string" where
  "table_row label current petitioner =
     ljust 30 label @ '' $'' @ rjust 13 (money current)
     @ ''  $'' @ rjust 13 (money (of_int petitioner))
     @ ''  $'' @ rjust 13 (fmt_f True True 0 (of_int petitioner - current))"

definition contends_line :: "real \<Rightarrow> string" where
  "contends_line sev =
     ''The petitioner contends that the 2026 assessed value of $'' @ money sev"

definition implying_line :: "real \<Rightarrow> string" where
  "implying_line tcv =
     ''(implying a True Cash Value of $'' @ money tcv @ '') exceeds the usual selling''"

definition requested_line :: "int \<Rightarrow> int \<Rightarrow> string" where
  "requested_line rec_sev rec_tcv =
     ''value of $'' @ money (of_int rec_sev) @ '' (TCV of $'' @ money (of_int rec_tcv)
     @ ''), supported by the following''"

definition reduce_line :: "real \<Rightarrow> int \<Rightarrow> string" where
  "reduce_line sev rec_sev =
     ''2026 assessed value from $'' @ money sev @ '' to $'' @ money (of_int rec_sev)
     @ '', reflecting a''"

definition reflecting_line :: "int \<Rightarrow> string" where
  "reflecting_line rec_tcv = ''True Cash Value of $'' @ money (of_int rec_tcv) @ ''.''"

section \<open>Sample inputs\<close>

text \<open>A sale with the given parcel, date and adjusted price, as the comparable-sales
  frame holds it.\<close>

definition sample_sale :: "string \<Rightarrow> string \<Rightarrow> real \<Rightarrow> int \<Rightarrow> comp_sale" where
  "sample_sale parcel date price y =
     \<lparr>Parcel_Number = Some parcel, Street_Address = Some ''4300 MEADOW DR'',
      Sale_Date = Some date, Sale_Price = Some price, Adj_Sale = Some price, year_col = y\<rparr>"

text \<open>The date parser on the dates of the samples: the same day written with and
  without a leading zero, one more day, and text that is no date.\<close>

definition sample_norm_date :: date_parser where
  "sample_norm_date s =
     (if s = ''05/25/2022'' \<or> s = ''5/25/2022'' then Inr (Some ''2022-05-25'')
      else if s = ''06/01/2023'' then Inr (Some ''2023-06-01'')
      else if s = [] then Inr None
      else Inl ValueError)"

text \<open>A row of a sales table for area \<^verbatim>\<open>AR-4\<close>.\<close>

definition sample_row ::
  "string \<Rightarrow> string \<Rightarrow> real \<Rightarrow> string option \<Rightarrow> int \<Rightarrow> sale_row" where
  "sample_row parcel date price terms y =
     \<lparr>Parcel_Number = Some parcel, Street_Address = Some ''4300 MEADOW DR'',
      Sale_Date = Some date, Sale_Price = Some price, Adj_Sale = Some price, year_col = y,
      ECF_Area = Some ''AR-4'', Terms_of_Sale = terms\<rparr>"

text \<open>A sales table with every column, and one as the loader leaves a file that has
  no terms-of-sale column.\<close>

definition full_table :: "sale_row list \<Rightarrow> sales_table" where
  "full_table rows =
     \<lparr>has_ECF_Area = True, has_Terms_of_Sale = True, has_Parcel_Number = True,
      has_Street_Address = True, has_Sale_Date = True, sales_rows = rows\<rparr>"

definition table_without_terms :: "sale_row list \<Rightarrow> sales_table" where
  "table_without_terms rows =
     \<lparr>has_ECF_Area = True, has_Terms_of_Sale = False, has_Parcel_Number = True,
      has_Street_Address = True, has_Sale_Date = True, sales_rows = rows\<rparr>"

text \<open>Two yearly sales tables with area \<^verbatim>\<open>AR-4\<close>: the first sale is recorded in both
  years, its date written in two ways.\<close>

definition sample_sales :: "(int \<times> sales_table) list" where
  "sample_sales =
     [(2024, full_table [sample_row ''L-1 '' ''05/25/2022'' 350000 (Some ''03-arm'') 2024]),
      (2025, full_table [sample_row ''L-1'' ''5/25/2022'' 350000 (Some ''03-ARM'') 2025,
                         sample_row ''L-2'' ''06/01/2023'' 450000 (Some ''03-ARM'') 2025])]"

text \<open>A year whose file has no terms-of-sale column, with one sale.\<close>

definition sales_without_terms :: "(int \<times> sales_table) list" where
  "sales_without_terms =
     [(2025, table_without_terms [sample_row ''L-7'' ''06/01/2023'' 200000 None 2025])]"

text \<open>The same sale in two years; the later record has an adjusted price below the
  lot-only threshold.\<close>

definition sales_later_filtered :: "(int \<times> sales_table) list" where
  "sales_later_filtered =
     [(2024, full_table [sample_row ''L-1'' ''05/25/2022'' 350000 (Some ''03-ARM'') 2024]),
      (2025, full_table [sample_row ''L-1'' ''5/25/2022'' 100000 (Some ''03-ARM'') 2025])]"

text \<open>A per-property cost-factor file for 2026 with area \<^verbatim>\<open>AR-4\<close>: factors 0.85, the two
  ends 0.1 and 5.0 of the loader's range, and 7.3 outside it.\<close>

definition sample_ecf_row :: "string \<Rightarrow> real \<Rightarrow> ecf_row" where
  "sample_ecf_row addr x =
     \<lparr>ea_ECF_Area_Code = Some ''AR-4'', ea_ECF_Area = None, ea_Street_Address = Some addr,
      ea_Parcel_Number = Some ''L-1'', ea_Sale_Price = Some 350000, ea_Cost_Man = Some 400000,
      ea_ECF = Some x\<rparr>"

definition sample_ecf_files :: "(int \<times> ecf_table) list" where
  "sample_ecf_files =
     [(2026, \<lparr>ea_has_ECF_Area_Code = True, ea_has_ECF_Area = False,
               ea_has_Street_Address = True, ea_has_Parcel_Number = True,
               ea_has_Sale_Price = True, ea_has_Cost_Man = True, ea_has_ECF = True,
               ea_rows = [sample_ecf_row ''1 A ST'' (85 / 100), sample_ecf_row ''2 A ST'' 5,
                          sample_ecf_row ''3 A ST'' (73 / 10),
                          sample_ecf_row ''4 A ST'' (1 / 10)]\<rparr>)]"

definition sample_ecf_property :: "string \<Rightarrow> real \<Rightarrow> ecf_property" where
  "sample_ecf_property addr x =
     \<lparr>ep_year = 2026, ep_address = addr, ep_parcel = ''L-1'', ep_sale_price = Some 350000,
      ep_cost_man = Some 400000, ep_ecf = Some x\<rparr>"

text \<open>An area-level summary file for 2026 whose average for \<^verbatim>\<open>AR-4\<close> is 7.3.\<close>

definition sample_summary_files :: "(int \<times> summary_row list) list" where
  "sample_summary_files =
     [(2026, [\<lparr>es_ECF_Area = Some ''AR-4'', es_Subdivision = Some ''MEADOWS'',
                es_Ave_ECF = Some (73 / 10)\<rparr>])]"

text \<open>The fields that only the second page can set.\<close>

definition page2_fields ::
  "PropertyData \<Rightarrow> string \<times> int \<times> string \<times> int \<times> int \<times> int \<times> int \<times> int \<times> int
     \<times> real option \<times> int \<times> string" where
  "page2_fields prop =
     (style prop, year_built prop, condition prop, effective_age prop, floor_area prop,
      ground_area prop, basement_sf prop, total_base_new prop, total_depr_cost prop,
      ecf prop, estimated_tcv_cost prop, raw_text_page2 prop)"

text \<open>Two one-page record cards, as recognized text: the only thing on the page is the
  estimated true cash value. On these texts the regular-expression engine finds the
  value with the pattern for it and nothing with any other pattern; the substitution
  that tidies numbers leaves the texts as they are.\<close>

definition CARD_ODD :: string where
  "CARD_ODD = ''2026 Est TCV 400,001''"

definition CARD_EVEN :: string where
  "CARD_EVEN = ''2026 Est TCV 400,000''"

definition sample_re :: re_lib where
  "sample_re =
     \<lparr>re_search = (\<lambda>pattern text.
                     if pattern = TCV_PATTERN \<and> text = CARD_ODD then Some ''400,001''
                     else if pattern = TCV_PATTERN \<and> text = CARD_EVEN then Some ''400,000''
                     else None),
      re_search2 = (\<lambda>pattern text. None),
      re_search_i = (\<lambda>pattern text. None),
      re_match = (\<lambda>pattern text. None),
      re_finditer = (\<lambda>pattern text. []),
      re_sub = (\<lambda>pattern repl text. text),
      py_float = (\<lambda>s. None)\<rparr>"

text \<open>Three yearly sales tables in which area \<^verbatim>\<open>AR-4\<close> has five rows, three rows and no
  row; and an area-level trend.\<close>

definition coverage_sales :: "(int \<times> sales_table) list" where
  "coverage_sales =
     [(2024, full_table (replicate 5 (sample_row ''L-1'' ''05/25/2022'' 350000 (Some ''03-ARM'') 2024))),
      (2025, full_table (replicate 3 (sample_row ''L-2'' ''06/01/2023'' 450000 (Some ''03-ARM'') 2025))),
      (2026, full_table
               [(sample_row ''L-9'' ''06/01/2023'' 450000 (Some ''03-ARM'') 2026)
                  \<lparr>ECF_Area := Some ''ARF''\<rparr>])]"

definition sample_trend :: "(int \<times> real option) list" where
  "sample_trend = [(2024, Some (90 / 100)), (2025, Some (88 / 100)), (2026, Some (85 / 100))]"

text \<open>Land tables for 2026: the area's three rows have three different current land
  values, and the prior value 90,000 twice.\<close>

definition sample_land_adj :: "(int \<times> adj_table) list" where
  "sample_land_adj =
     [(2026, \<lparr>adj_has_Area_Code = True, adj_has_Adjust_Factor = True,
               adj_rows = [\<lparr>adj_Area_Code = Some ''AR-4'',
                            adj_Adjust_Factor = Some (105 / 100)\<rparr>]\<rparr>)]"

definition sample_land_row :: "real \<Rightarrow> real \<Rightarrow> land_row" where
  "sample_land_row prior current =
     \<lparr>la_Area_Code = Some ''AR-4'', la_ECF_Area = Some ''AR-4AR4-MEADOWS'',
      la_Land_Value_Prior = Some prior, la_Land_Value_Current = Some current\<rparr>"

definition sample_land :: "(int \<times> land_table) list" where
  "sample_land =
     [(2026, \<lparr>la_has_Area_Code = True, la_has_ECF_Area = True,
               la_has_Land_Value_Prior = True, la_has_Land_Value_Current = True,
               la_rows = [sample_land_row 90000 300000, sample_land_row 95000 100000,
                          sample_land_row 90000 200000]\<rparr>)]"

section \<open>Valuation engine: the recommended range\<close>

text \<open>
  C2. For every true cash value, latest-year cost factor (possibly absent) and sales
  statistics, \<^verbatim>\<open>_compute_recommended_values\<close> returns without raising. When the candidate
  set of the specification (the cost-factor-adjusted value if the factor exists and is
  below 1.0; the sales median and mean if the count is positive) is empty, the result
  is the pair (true cash value, true cash value); otherwise it is the pair (primary,
  greatest candidate), the primary value being the sales median if there are sales,
  else the cost-factor-adjusted value if the factor is below 1.0, else the true cash
  value.
\<close>

theorem compute_recommended_values_spec:
  "compute_recommended_values ecf_2026 user_tcv sales_stats =
     Inr (if spec_candidate_set ecf_2026 user_tcv sales_stats = {}
          then (user_tcv, user_tcv)
          else (spec_primary ecf_2026 user_tcv sales_stats,
                Max (spec_candidate_set ecf_2026 user_tcv sales_stats)))"
proof (cases sales_stats)
  case CountOnly
  then show ?thesis
    by (cases ecf_2026)
       (simp_all add: compute_recommended_values_def spec_candidate_set_def spec_primary_def
          bind_res_def)
next
  case NoPrices
  then show ?thesis
    by (cases ecf_2026)
       (simp_all add: compute_recommended_values_def spec_candidate_set_def spec_primary_def
          bind_res_def)
next
  case (Stats d)
  then show ?thesis
    by (cases ecf_2026)
       (auto simp: compute_recommended_values_def spec_candidate_set_def spec_primary_def
          bind_res_def max_def)
qed

theorem compute_recommended_values_spec_witness:
  "compute_recommended_values (Some (85 / 100)) 400000
     (Stats \<lparr>count = 2, mean = 365000, median = 360000, min_price = 350000,
             max_price = 380000, pct_below_tcv = 100, pct_above_tcv = 0,
             delta_from_median = 40000, delta_pct = 100 / 9\<rparr>)
   = Inr (360000, 365000)
   \<and> compute_recommended_values None 400000 CountOnly = Inr (400000, 400000)"
  using compute_recommended_values_spec [of "Some (85 / 100)" 400000
          "Stats \<lparr>count = 2, mean = 365000, median = 360000, min_price = 350000,
             max_price = 380000, pct_below_tcv = 100, pct_above_tcv = 0,
             delta_from_median = 40000, delta_pct = 100 / 9\<rparr>"]
        compute_recommended_values_spec [of None 400000 CountOnly]
  by (simp add: spec_candidate_set_def spec_primary_def)

section \<open>Sales statistics: the two percentages\<close>

lemma pct_bounds:
  fixes k n :: nat
  assumes "k \<le> n" "0 < n"
  shows "0 \<le> real k / real_of_int (int n) * 100" "real k / real_of_int (int n) * 100 \<le> 100"
  using assms by (simp_all add: divide_simps)

text \<open>
  C9. For every non-empty comparable-sales frame and every homeowner true cash value,
  the dictionary of \<^verbatim>\<open>compute_sales_stats\<close> has both percentages, they add up to 100
  exactly, and \<^verbatim>\<open>pct_below_tcv\<close> lies between 0 and 100.
\<close>

theorem compute_sales_stats_pct:
  assumes "sales_df \<noteq> []"
  shows "\<exists>b a. get_pct_below_tcv (compute_sales_stats sales_df user_tcv) = Some b
           \<and> get_pct_above_tcv (compute_sales_stats sales_df user_tcv) = Some a
           \<and> b + a = 100 \<and> 0 \<le> b \<and> b \<le> 100"
proof (cases "dropna (map Adj_Sale sales_df)")
  case Nil
  with assms show ?thesis by (simp add: compute_sales_stats_def)
next
  case (Cons p ps)
  let ?k = "length (filter (\<lambda>x. x < user_tcv) (p # ps))"
  let ?n = "length (p # ps)"
  let ?b = "real ?k / real_of_int (int ?n) * 100"
  have kn: "?k \<le> ?n" by (rule length_filter_le)
  have npos: "0 < ?n" by simp
  have lb: "0 \<le> ?b" and ub: "?b \<le> 100"
    by (rule pct_bounds[OF kn npos])+
  have below: "get_pct_below_tcv (compute_sales_stats sales_df user_tcv) = Some ?b"
    using assms Cons by (simp add: compute_sales_stats_def Let_def)
  have above: "get_pct_above_tcv (compute_sales_stats sales_df user_tcv) = Some (100 - ?b)"
    using assms Cons by (simp add: compute_sales_stats_def Let_def)
  have total: "x + (100 - x) = 100" for x :: real by simp
  show ?thesis using below above total[of ?b] lb ub by blast
qed

theorem compute_sales_stats_pct_witness:
  "[sample_sale ''L-1'' ''05/25/2022'' 350000 2024,
    sample_sale ''L-2'' ''06/01/2023'' 450000 2025,
    sample_sale ''L-3'' ''07/04/2023'' 380000 2025] \<noteq> []
   \<and> get_pct_below_tcv (compute_sales_stats
         [sample_sale ''L-1'' ''05/25/2022'' 350000 2024,
          sample_sale ''L-2'' ''06/01/2023'' 450000 2025,
          sample_sale ''L-3'' ''07/04/2023'' 380000 2025] 400000) = Some (200 / 3)
   \<and> get_pct_above_tcv (compute_sales_stats
         [sample_sale ''L-1'' ''05/25/2022'' 350000 2024,
          sample_sale ''L-2'' ''06/01/2023'' 450000 2025,
          sample_sale ''L-3'' ''07/04/2023'' 380000 2025] 400000) = Some (100 / 3)"
  using compute_sales_stats_pct [of
          "[sample_sale ''L-1'' ''05/25/2022'' 350000 2024,
            sample_sale ''L-2'' ''06/01/2023'' 450000 2025,
            sample_sale ''L-3'' ''07/04/2023'' 380000 2025]" 400000]
  by (simp add: compute_sales_stats_def sample_sale_def Let_def)

section \<open>Petition composer: the verdict\<close>

lemma with_sales_None: "get_count s \<le> 0 \<Longrightarrow> with_sales s = None"
  by (cases s) auto

lemma compute_recommended_values_total:
  "\<exists>lo hi. compute_recommended_values e t s = Inr (lo, hi)"
  by (cases s; cases e)
     (auto simp: compute_recommended_values_def bind_res_def)

lemma py_round_near: "\<bar>of_int (py_round x) - x\<bar> \<le> 1 / 2"
  unfolding py_round_def Let_def by (auto; linarith)

lemma recommended_sev_near: "\<bar>of_int (recommended_sev rec_low) - rec_low / 2\<bar> \<le> 2500"
proof -
  have "\<bar>of_int (py_round (rec_low / 2 / 5000)) - rec_low / 2 / 5000\<bar> \<le> 1 / 2"
    by (rule py_round_near)
  then have "5000 * \<bar>of_int (py_round (rec_low / 2 / 5000)) - rec_low / 2 / 5000\<bar>
               \<le> 5000 * (1 / 2)"
    by (rule mult_left_mono) simp
  then show ?thesis
    by (simp add: recommended_sev_def abs_if split: if_splits)
qed

lemma join_lines_Cons: "ls \<noteq> [] \<Longrightarrow> join_lines (l # ls) = l @ [CHR 0x0A] @ join_lines ls"
  by (cases ls) (simp_all add: join_lines_def)

lemma not_recommended_shape:
  assumes "ecf_adjusted \<noteq> None \<longrightarrow> ecf_2026 \<noteq> None"
  shows "\<exists>rest. not_recommended_lines a sd user_sev user_tcv ecf_2026 ecf_adjusted s pd
           = Inr (rule_eq # NOT_RECOMMENDED_TITLE # rule_eq # rest)"
  using assms
  by (cases ecf_adjusted; cases ecf_2026; cases "with_sales s")
     (auto simp: not_recommended_lines_def bind_res_def NOT_RECOMMENDED_TITLE_def)

lemma short_text:
  "is_short_form (join_lines (rule_eq # NOT_RECOMMENDED_TITLE # rule_eq # rest))"
  by (simp add: join_lines_Cons is_short_form_def starts_with_def)

lemma petition_text: "is_petition (join_lines (header_lines @ rest))"
  by (simp add: header_lines_def join_lines_Cons is_petition_def starts_with_def
        PETITION_TITLE_def)

lemma starts_with_hd: "starts_with (c # p) t \<Longrightarrow> \<exists>r. t = c # r"
  by (cases t) (auto simp: starts_with_def)

lemma rule_eq_hd: "rule_eq = CHR ''='' # replicate 69 CHR ''=''"
  by (simp add: rule_eq_def numeral_eq_Suc)

lemma petition_not_short: "is_petition t \<Longrightarrow> \<not> is_short_form t"
proof
  assume p: "is_petition t" and s: "is_short_form t"
  from p obtain r where "t = CHR ''P'' # r"
    using starts_with_hd [of "CHR ''P''" _ t]
    by (auto simp: is_petition_def PETITION_TITLE_def)
  moreover from s obtain r' where "t = CHR ''='' # r'"
    using starts_with_hd [of "CHR ''=''" _ t]
    by (auto simp: is_short_form_def rule_eq_hd)
  ultimately show False by simp
qed

text \<open>The composer, with the valuation taken out of the way.\<close>

lemma generate_appeal_lines_unfold:
  assumes "compute_recommended_values (trend_get ecf_trend 2026) (homeowner_tcv user_sev) s
             = Inr (lo, hi)"
  shows "generate_appeal_lines a sd user_sev ecf_trend s lts cov eps sdf pd =
     (if user_sev \<le> of_int (recommended_sev lo)
      then not_recommended_lines a sd user_sev (homeowner_tcv user_sev)
             (trend_get ecf_trend 2026)
             (ecf_adjusted_of (trend_get ecf_trend 2026) (homeowner_tcv user_sev)) s pd
      else bind_res (evidence_ecf_lines 1 a (homeowner_tcv user_sev) ecf_trend
                       (trend_get ecf_trend 2026)
                       (ecf_adjusted_of (trend_get ecf_trend 2026) (homeowner_tcv user_sev)))
             (\<lambda>(ev1, n1).
                Inr (header_lines
                     @ property_information_lines a sd pd
                     @ assessment_values_lines user_sev (homeowner_tcv user_sev)
                         (recommended_sev lo) pd
                     @ grounds_lines a sd user_sev (homeowner_tcv user_sev) (recommended_sev lo)
                     @ ev1
                     @ fst (evidence_sales_lines n1 a (homeowner_tcv user_sev) s eps sdf)
                     @ fst (evidence_land_lines
                              (snd (evidence_sales_lines n1 a (homeowner_tcv user_sev) s eps sdf))
                              a (trend_get ecf_trend 2026) lts)
                     @ conclusion_lines a user_sev (recommended_sev lo)
                         (trend_get ecf_trend 2026)
                         (ecf_adjusted_of (trend_get ecf_trend 2026) (homeowner_tcv user_sev)) s
                     @ legal_basis_lines @ petitioner_lines pd @ footer_lines)))"
  using assms
  by (simp add: generate_appeal_lines_def bind_res_def Let_def
        split: sum.splits prod.splits)

lemma evidence_ecf_total:
  assumes "\<And>e. ecf_2026 = Some e \<Longrightarrow> e < 1 \<Longrightarrow> ecf_adjusted \<noteq> None"
  shows "\<exists>ev n. evidence_ecf_lines k a t trend ecf_2026 ecf_adjusted = Inr (ev, n)"
  using assms
  by (cases ecf_2026; cases ecf_adjusted)
     (auto simp: evidence_ecf_lines_def bind_res_def Let_def)

text \<open>The example of the specification: factor 0.85, assessed value 200,000, no sales.\<close>

lemma example_values:
  assumes "get_count s \<le> 0"
  shows "compute_recommended_values (Some (85 / 100)) (homeowner_tcv 200000) s
           = Inr (340000, 340000)"
  using with_sales_None [OF assms]
  by (simp add: compute_recommended_values_def bind_res_def homeowner_tcv_def)

lemma example_sev: "recommended_sev 340000 = 170000"
  by (simp add: recommended_sev_def py_round_def)

lemma example_petition:
  assumes e: "trend_get ecf_trend 2026 = Some (85 / 100)" and c: "get_count s \<le> 0"
  shows "\<exists>t. generate_appeal_summary a sd 200000 ecf_trend s lts cov eps sdf pd = Inr t
           \<and> is_petition t"
proof -
  have rv: "compute_recommended_values (trend_get ecf_trend 2026) (homeowner_tcv 200000) s
              = Inr (340000, 340000)"
    using example_values [OF c] e by simp
  have adj: "ecf_adjusted_of (Some (85 / 100)) (homeowner_tcv 200000) \<noteq> None"
    by (simp add: ecf_adjusted_of_def)
  obtain ev n where ev:
    "evidence_ecf_lines 1 a (homeowner_tcv 200000) ecf_trend (Some (85 / 100))
       (ecf_adjusted_of (Some (85 / 100)) (homeowner_tcv 200000)) = Inr (ev, n)"
    using evidence_ecf_total [of "Some (85 / 100)"] adj by blast
  show ?thesis
    using generate_appeal_lines_unfold [OF rv, of a sd lts cov eps sdf pd] ev e
    by (simp add: generate_appeal_summary_def bind_res_def example_sev petition_text)
qed

text \<open>
  C1. For every assessed value \<open>user_sev\<close>, cost-factor trend and sales statistics,
  \<^verbatim>\<open>generate_appeal_summary\<close> takes the primary value \<open>rec_low\<close> of the valuation, halves it
  and rounds to a nearest multiple of 5,000 (\<open>recommended_sev\<close>), and returns the short
  form exactly when that value is at least \<open>user_sev\<close>; otherwise whatever it returns
  is the petition. With factor 0.85 for 2026, \<open>user_sev\<close> 200,000 and no sales, the
  recommended true cash value is 340,000, the recommended assessed value 170,000, and
  the petition is returned.
\<close>

theorem generate_appeal_summary_verdict:
  "\<exists>rec_low rec_high.
      compute_recommended_values (trend_get ecf_trend 2026) (homeowner_tcv user_sev) sales_stats
        = Inr (rec_low, rec_high)
    \<and> 5000 dvd recommended_sev rec_low
    \<and> \<bar>of_int (recommended_sev rec_low) - rec_low / 2\<bar> \<le> 2500
    \<and> ((\<exists>t. generate_appeal_summary a sd user_sev ecf_trend sales_stats lts cov eps sdf pd
                = Inr t \<and> is_short_form t)
         \<longleftrightarrow> user_sev \<le> of_int (recommended_sev rec_low))
    \<and> (\<forall>t. generate_appeal_summary a sd user_sev ecf_trend sales_stats lts cov eps sdf pd
                = Inr t
             \<longrightarrow> \<not> user_sev \<le> of_int (recommended_sev rec_low) \<longrightarrow> is_petition t)
    \<and> (trend_get ecf_trend 2026 = Some (85 / 100) \<and> user_sev = 200000
          \<and> get_count sales_stats \<le> 0
        \<longrightarrow> homeowner_tcv user_sev = 400000 \<and> rec_low = 340000
            \<and> recommended_sev rec_low = 170000
            \<and> (\<exists>t. generate_appeal_summary a sd user_sev ecf_trend sales_stats lts cov eps sdf pd
                       = Inr t \<and> is_petition t \<and> \<not> is_short_form t))"
proof -
  let ?e = "trend_get ecf_trend 2026"
  let ?adj = "ecf_adjusted_of ?e (homeowner_tcv user_sev)"
  let ?G = "generate_appeal_summary a sd user_sev ecf_trend sales_stats lts cov eps sdf pd"
  obtain lo hi where
    rv: "compute_recommended_values ?e (homeowner_tcv user_sev) sales_stats = Inr (lo, hi)"
    using compute_recommended_values_total by blast
  note unf = generate_appeal_lines_unfold [OF rv, of a sd lts cov eps sdf pd]
  have adj: "?adj \<noteq> None \<longrightarrow> ?e \<noteq> None"
    by (simp add: ecf_adjusted_of_def split: option.splits)
  have short: "\<exists>t. ?G = Inr t \<and> is_short_form t"
    if "user_sev \<le> of_int (recommended_sev lo)"
  proof -
    from not_recommended_shape [OF adj] obtain rest where
      "not_recommended_lines a sd user_sev (homeowner_tcv user_sev) ?e ?adj sales_stats pd
         = Inr (rule_eq # NOT_RECOMMENDED_TITLE # rule_eq # rest)" by blast
    with that unf show ?thesis
      by (simp add: generate_appeal_summary_def bind_res_def short_text)
  qed
  have long: "is_petition t"
    if "\<not> user_sev \<le> of_int (recommended_sev lo)" and "?G = Inr t" for t
    using that unf
    by (auto simp: generate_appeal_summary_def bind_res_def petition_text
          split: sum.splits prod.splits)
  have dvd: "5000 dvd recommended_sev lo" by (simp add: recommended_sev_def)
  have iff: "(\<exists>t. ?G = Inr t \<and> is_short_form t) \<longleftrightarrow> user_sev \<le> of_int (recommended_sev lo)"
    using short long petition_not_short by blast
  have ex: "homeowner_tcv user_sev = 400000 \<and> lo = 340000 \<and> recommended_sev lo = 170000
            \<and> (\<exists>t. ?G = Inr t \<and> is_petition t \<and> \<not> is_short_form t)"
    if h: "?e = Some (85 / 100) \<and> user_sev = 200000 \<and> get_count sales_stats \<le> 0"
  proof -
    from h have lo: "lo = 340000"
      using rv example_values [of sales_stats] by simp
    from h have "\<exists>t. ?G = Inr t \<and> is_petition t"
      using example_petition [of ecf_trend sales_stats a sd lts cov eps sdf pd] by simp
    with h lo show ?thesis
      using petition_not_short by (auto simp: example_sev homeowner_tcv_def)
  qed
  show ?thesis
    using rv dvd recommended_sev_near [of lo] iff long ex by blast
qed

theorem generate_appeal_summary_verdict_witness:
  "trend_get [(2024, None), (2026, Some (85 / 100))] 2026 = Some (85 / 100)
   \<and> get_count CountOnly \<le> 0
   \<and> compute_recommended_values (Some (85 / 100)) 400000 CountOnly = Inr (340000, 340000)
   \<and> recommended_sev 340000 = 170000
   \<and> (\<exists>t. generate_appeal_summary ''AR-4'' ''MEADOWS'' 200000
             [(2024, None), (2026, Some (85 / 100))] CountOnly [] [] [] None None = Inr t
          \<and> is_petition t \<and> \<not> is_short_form t)"
proof -
  have e: "trend_get [(2024, None), (2026, Some (85 / 100))] 2026 = Some (85 / 100)"
    by (simp add: trend_get_def dict_get_def)
  have v: "compute_recommended_values (Some (85 / 100)) 400000 CountOnly = Inr (340000, 340000)"
    by (simp add: compute_recommended_values_def bind_res_def)
  note s = example_sev
  show ?thesis
    using generate_appeal_summary_verdict [of "[(2024, None), (2026, Some (85 / 100))]"
            200000 CountOnly "''AR-4''" "''MEADOWS''" "[]" "[]" "[]" None None] e v s
    by (auto simp: homeowner_tcv_def)
qed

section \<open>Comparable sales\<close>

lemma set_sort_values_desc: "set (sort_values_desc rows) = set rows"
  by (auto simp: sort_values_desc_def)

lemma set_drop_duplicates_last: "set (drop_duplicates_last xs) \<subseteq> set xs"
  by (induction xs) auto

lemma with_keys_fst: "with_keys nd rows = Inr keyed \<Longrightarrow> map fst keyed = rows"
  by (induction rows arbitrary: keyed) (auto simp: bind_res_def split: sum.splits)

lemma with_keys_snd:
  "with_keys nd rows = Inr keyed \<Longrightarrow> (r, k) \<in> set keyed \<Longrightarrow> dedup_key nd r = Inr k"
  by (induction rows arbitrary: keyed) (auto simp: bind_res_def split: sum.splits)

lemma filtered_rows_props:
  assumes "r \<in> set (filtered_rows a df)"
  shows "r \<in> set (sales_rows df)" "ECF_Area r = Some a" "at_least_threshold (Adj_Sale r)"
    "has_Terms_of_Sale df \<longrightarrow> contains_ARM (Terms_of_Sale r)"
  using assms by (auto simp: filtered_rows_def Let_def split: if_splits)

lemma sales_of_year_rows:
  assumes "sales_of_year a df = Inr rows" "x \<in> set rows"
  shows "has_ECF_Area df \<and> (\<exists>r \<in> set (filtered_rows a df). x = comp_sale.truncate r)"
  using assms by (auto simp: sales_of_year_def Let_def split: if_splits)

lemma all_sales_rows:
  assumes "all_sales sales a = Inr rows" "x \<in> set rows"
  shows "\<exists>(y, df) \<in> set sales. has_ECF_Area df
           \<and> (\<exists>r \<in> set (filtered_rows a df). x = comp_sale.truncate r)"
  using assms
proof (induction sales arbitrary: rows)
  case Nil
  then show ?case by simp
next
  case (Cons ydf sales)
  obtain y df where ydf: "ydf = (y, df)" by (cases ydf)
  from Cons.prems ydf obtain r1 r2 where
    r1: "sales_of_year a df = Inr r1" and r2: "all_sales sales a = Inr r2"
    and rows: "rows = r1 @ r2"
    by (auto simp: bind_res_def split: sum.splits)
  from Cons.prems(2) rows consider "x \<in> set r1" | "x \<in> set r2" by auto
  then show ?case
  proof cases
    case 1
    with sales_of_year_rows [OF r1] ydf show ?thesis by auto
  next
    case 2
    with Cons.IH [OF r2] show ?thesis by auto
  qed
qed

lemma get_comparable_sales_subset:
  assumes "get_comparable_sales nd sales a = Inr out"
  shows "\<exists>passing. all_sales sales a = Inr passing \<and> set out \<subseteq> set passing"
proof -
  from assms obtain passing where p: "all_sales sales a = Inr passing"
    by (auto simp: get_comparable_sales_def bind_res_def split: sum.splits)
  show ?thesis
  proof (cases "passing = []")
    case True
    with assms p show ?thesis by (simp add: get_comparable_sales_def bind_res_def)
  next
    case False
    with assms p obtain keyed where k: "with_keys nd passing = Inr keyed"
      and out: "out = sort_values_desc (map fst (drop_duplicates_last keyed))"
      by (auto simp: get_comparable_sales_def bind_res_def split: sum.splits)
    have "set out \<subseteq> fst ` set keyed"
      using out set_drop_duplicates_last [of keyed] by (auto simp: set_sort_values_desc)
    also have "\<dots> = set passing" using with_keys_fst [OF k] by (metis set_map)
    finally show ?thesis using p by blast
  qed
qed

lemma truncate_Adj: "Adj_Sale (comp_sale.truncate r) = Adj_Sale r"
  by (simp add: comp_sale.truncate_def)


lemmas sales_eval =
  get_comparable_sales_def bind_res_def sales_of_year_def filtered_rows_def
  full_table_def table_without_terms_def sample_row_def contains_ARM_def py_upper_def
  upper_char_def at_least_threshold_def LOT_ONLY_THRESHOLD_def comp_sale.truncate_def
  dedup_key_def sample_norm_date_def py_strip_def is_space_def sort_values_desc_def
  sale_pair_def passing_rows_def

lemma sample_sales_eval:
  "get_comparable_sales sample_norm_date sample_sales ''AR-4''
     = Inr [comp_sale.truncate (sample_row ''L-1'' ''5/25/2022'' 350000 (Some ''03-ARM'') 2025),
            comp_sale.truncate (sample_row ''L-2'' ''06/01/2023'' 450000 (Some ''03-ARM'') 2025)]"
  by (simp add: sample_sales_def sales_eval)

text \<open>
  C3, as amended. For every collection of yearly sales tables and every area code, every
  row that \<^verbatim>\<open>get_comparable_sales\<close> returns has an adjusted sale price that is present
  and at least 150,000, and it is the six-column cut of a row of one of the tables whose
  area is the area code and whose terms of sale contain \<^verbatim>\<open>ARM\<close> in any mix of cases
  whenever that year's table has a terms-of-sale column.
\<close>

theorem get_comparable_sales_rows:
  assumes "get_comparable_sales norm_date sales a = Inr out" and "x \<in> set out"
  shows "(\<exists>p. Adj_Sale x = Some p \<and> 150000 \<le> p)
       \<and> (\<exists>(y, df) \<in> set sales. \<exists>r \<in> set (sales_rows df).
             x = comp_sale.truncate r \<and> has_ECF_Area df \<and> ECF_Area r = Some a
             \<and> (has_Terms_of_Sale df \<longrightarrow> contains_ARM (Terms_of_Sale r)))"
proof -
  from get_comparable_sales_subset [OF assms(1)] assms(2) obtain passing where
    "all_sales sales a = Inr passing" "x \<in> set passing" by blast
  from all_sales_rows [OF this] obtain y df r where
    in_sales: "(y, df) \<in> set sales" and ecf: "has_ECF_Area df"
    and r: "r \<in> set (filtered_rows a df)" and x: "x = comp_sale.truncate r"
    by blast
  note props = filtered_rows_props [OF r]
  from props(3) x have "\<exists>p. Adj_Sale x = Some p \<and> 150000 \<le> p"
    by (auto simp: at_least_threshold_def LOT_ONLY_THRESHOLD_def truncate_Adj split: option.splits)
  moreover have "\<exists>(y, df) \<in> set sales. \<exists>r \<in> set (sales_rows df).
             x = comp_sale.truncate r \<and> has_ECF_Area df \<and> ECF_Area r = Some a
             \<and> (has_Terms_of_Sale df \<longrightarrow> contains_ARM (Terms_of_Sale r))"
    using in_sales ecf props x by blast
  ultimately show ?thesis by blast
qed



theorem get_comparable_sales_rows_witness:
  "get_comparable_sales sample_norm_date sample_sales ''AR-4''
     = Inr [comp_sale.truncate (sample_row ''L-1'' ''5/25/2022'' 350000 (Some ''03-ARM'') 2025),
            comp_sale.truncate (sample_row ''L-2'' ''06/01/2023'' 450000 (Some ''03-ARM'') 2025)]
   \<and> Adj_Sale (comp_sale.truncate (sample_row ''L-2'' ''06/01/2023'' 450000 (Some ''03-ARM'') 2025))
       = Some 450000
   \<and> contains_ARM (Terms_of_Sale (sample_row ''L-2'' ''06/01/2023'' 450000 (Some ''03-ARM'') 2025))"
  using get_comparable_sales_rows [OF sample_sales_eval,
          of "comp_sale.truncate (sample_row ''L-2'' ''06/01/2023'' 450000 (Some ''03-ARM'') 2025)"]
        sample_sales_eval
  by (simp add: sample_row_def comp_sale.truncate_def contains_ARM_def py_upper_def
        upper_char_def)

text \<open>The claim as written fails for a year whose table has no terms-of-sale column: the
  sale is returned although it has no terms of sale at all.\<close>

theorem get_comparable_sales_terms_counterexample:
  "get_comparable_sales sample_norm_date sales_without_terms ''AR-4''
     = Inr [comp_sale.truncate (sample_row ''L-7'' ''06/01/2023'' 200000 None 2025)]
   \<and> \<not> contains_ARM (Terms_of_Sale (sample_row ''L-7'' ''06/01/2023'' 200000 None 2025))"
  by (simp add: sales_without_terms_def sales_eval)

lemma drop_duplicates_last_filter:
  "filter (\<lambda>x. snd x = k) (drop_duplicates_last xs) =
     (if filter (\<lambda>x. snd x = k) xs = [] then []
      else [last (filter (\<lambda>x. snd x = k) xs)])"
proof (induction xs)
  case Nil
  show ?case by simp
next
  case (Cons x xs)
  show ?case
  proof (cases "snd x \<in> snd ` set xs")
    case True
    then have later: "snd x = k \<Longrightarrow> filter (\<lambda>x. snd x = k) xs \<noteq> []"
      by (fastforce simp: filter_empty_conv)
    from True Cons.IH later show ?thesis by auto
  next
    case False
    then have "\<forall>y\<in>set xs. snd y \<noteq> snd x" by (metis imageI)
    then have none: "snd x = k \<Longrightarrow> filter (\<lambda>x. snd x = k) xs = []"
      by (auto simp: filter_empty_conv)
    from False Cons.IH none show ?thesis by auto
  qed
qed

lemma key_inj:
  assumes "length d = length d'" "p @ ''_'' @ d = p' @ ''_'' @ d'"
  shows "p = p' \<and> d = d'"
proof -
  have "length (''_'' @ d) = length (''_'' @ d')" using assms(1) by simp
  with assms(2) have "p = p' \<and> ''_'' @ d = ''_'' @ d'"
    by (metis append_eq_append_conv)
  then show ?thesis by simp
qed

lemma dedup_key_pair:
  assumes len: "\<And>s d. nd s = Inr (Some d) \<Longrightarrow> length d = 10"
    and k: "dedup_key nd r = Inr k" and d: "length d = 10"
  shows "sale_pair nd r = Some (p, d) \<longleftrightarrow> k = Some (p @ ''_'' @ d)"
proof (cases "Parcel_Number r")
  case None
  with k show ?thesis
    by (auto simp: dedup_key_def sale_pair_def bind_res_def split: option.splits sum.splits)
next
  case (Some p0)
  show ?thesis
  proof (cases "Sale_Date r")
    case None
    with k Some show ?thesis
      by (auto simp: dedup_key_def sale_pair_def bind_res_def)
  next
    case (Some s0)
    show ?thesis
    proof (cases "nd s0")
      case (Inl e)
      with k Some show ?thesis by (simp add: dedup_key_def bind_res_def)
    next
      case (Inr od)
      show ?thesis
      proof (cases od)
        case None
        with k Inr Some \<open>Parcel_Number r = Some p0\<close> show ?thesis
          by (auto simp: dedup_key_def sale_pair_def bind_res_def)
      next
        case (Some d0)
        with Inr len have l0: "length d0 = 10" by blast
        from k Inr Some \<open>Parcel_Number r = Some p0\<close> \<open>Sale_Date r = Some s0\<close>
        have kk: "k = Some (py_strip p0 @ ''_'' @ d0)"
          by (auto simp: dedup_key_def bind_res_def)
        have sp: "sale_pair nd r = Some (py_strip p0, d0)"
          using Inr Some \<open>Parcel_Number r = Some p0\<close> \<open>Sale_Date r = Some s0\<close>
          by (simp add: sale_pair_def)
        show ?thesis
          using kk sp key_inj [of d0 d "py_strip p0" p] l0 d by auto
      qed
    qed
  qed
qed

lemma sale_pair_length:
  assumes len: "\<And>s d. nd s = Inr (Some d) \<Longrightarrow> length d = 10"
    and "sale_pair nd r = Some (p, d)"
  shows "length d = 10"
  using assms by (auto simp: sale_pair_def split: option.splits sum.splits)

lemma filter_keyed:
  assumes len: "\<And>s d. nd s = Inr (Some d) \<Longrightarrow> length d = 10"
    and d: "length d = 10"
    and keys: "\<And>r k. (r, k) \<in> set xs \<Longrightarrow> dedup_key nd r = Inr k"
  shows "filter (\<lambda>r. sale_pair nd r = Some (p, d)) (map fst xs) =
         map fst (filter (\<lambda>x. snd x = Some (p @ ''_'' @ d)) xs)"
proof -
  have "filter ((\<lambda>r. sale_pair nd r = Some (p, d)) \<circ> fst) xs
          = filter (\<lambda>x. snd x = Some (p @ ''_'' @ d)) xs"
  proof (rule filter_cong [OF refl])
    fix x assume "x \<in> set xs"
    then have "dedup_key nd (fst x) = Inr (snd x)" using keys [of "fst x" "snd x"] by simp
    from dedup_key_pair [OF len this d]
    show "((\<lambda>r. sale_pair nd r = Some (p, d)) \<circ> fst) x = (snd x = Some (p @ ''_'' @ d))"
      by simp
  qed
  then show ?thesis by (simp add: filter_map)
qed

lemma filter_commute: "filter P (filter Q xs) = filter Q (filter P xs)"
  by (induction xs) auto

lemma filter_sort_values_desc:
  assumes "length (filter P rows) \<le> 1"
  shows "filter P (sort_values_desc rows) = filter P rows"
proof (cases "filter P rows")
  case Nil
  then show ?thesis
    by (auto simp: sort_values_desc_def filter_empty_conv)
next
  case (Cons x rest)
  with assms have single: "filter P rows = [x]" by simp
  let ?Q = "\<lambda>r. Sale_Date r \<noteq> None"
  have a: "filter P (filter ?Q rows) = filter ?Q [x]"
    using single filter_commute [of P ?Q rows] by simp
  have b: "filter P (filter (\<lambda>r. Sale_Date r = None) rows) = filter (\<lambda>r. Sale_Date r = None) [x]"
    using single filter_commute [of P "\<lambda>r. Sale_Date r = None" rows] by simp
  have "filter P (sort_values_desc rows)
          = rev (sort_key (\<lambda>r. str_cell (Sale_Date r)) (rev (filter P (filter ?Q rows))))
            @ filter P (filter (\<lambda>r. Sale_Date r = None) rows)"
    by (simp add: sort_values_desc_def filter_sort rev_filter [symmetric])
  also have "\<dots> = [x]" unfolding a b by simp
  finally show ?thesis using single by simp
qed

lemma all_sales_passing: "all_sales sales a = Inr rows \<Longrightarrow> rows = passing_rows sales a"
proof (induction sales arbitrary: rows)
  case Nil
  then show ?case by (simp add: passing_rows_def)
next
  case (Cons ydf sales)
  obtain y df where ydf: "ydf = (y, df)" by (cases ydf)
  from Cons.prems ydf obtain r1 r2 where
    r1: "sales_of_year a df = Inr r1" and r2: "all_sales sales a = Inr r2"
    and rows: "rows = r1 @ r2"
    by (auto simp: bind_res_def split: sum.splits)
  from r1 have "r1 = (if has_ECF_Area df then map comp_sale.truncate (filtered_rows a df) else [])"
    by (auto simp: sales_of_year_def Let_def split: if_splits)
  with Cons.IH [OF r2] rows ydf show ?case by (simp add: passing_rows_def)
qed


text \<open>
  C5, as amended. Take the rows that pass the area, arm's-length and lot-only filters, in
  loading order. For every trimmed parcel number \<open>p\<close> and normalized date \<open>d\<close>, the
  output of \<^verbatim>\<open>get_comparable_sales\<close> has no row with that pair when no passing row has
  it, and otherwise exactly one: the last passing row with that pair. The date parser
  writes a date in ten characters.
\<close>

theorem get_comparable_sales_dedup:
  assumes len: "\<And>s d. norm_date s = Inr (Some d) \<Longrightarrow> length d = 10"
    and out: "get_comparable_sales norm_date sales a = Inr out"
  shows "filter (\<lambda>r. sale_pair norm_date r = Some (p, d)) out =
           (if filter (\<lambda>r. sale_pair norm_date r = Some (p, d)) (passing_rows sales a) = []
            then []
            else [last (filter (\<lambda>r. sale_pair norm_date r = Some (p, d))
                          (passing_rows sales a))])"
proof -
  let ?P = "\<lambda>r. sale_pair norm_date r = Some (p, d)"
  let ?K = "\<lambda>x :: comp_sale \<times> string option. snd x = Some (p @ ''_'' @ d)"
  from out obtain passing where pass: "all_sales sales a = Inr passing"
    by (auto simp: get_comparable_sales_def bind_res_def split: sum.splits)
  have pr: "passing_rows sales a = passing" using all_sales_passing [OF pass] by simp
  show ?thesis
  proof (cases "passing = []")
    case True
    with out pass pr show ?thesis by (simp add: get_comparable_sales_def bind_res_def)
  next
    case False
    with out pass obtain keyed where k: "with_keys norm_date passing = Inr keyed"
      and o: "out = sort_values_desc (map fst (drop_duplicates_last keyed))"
      by (auto simp: get_comparable_sales_def bind_res_def split: sum.splits)
    show ?thesis
    proof (cases "length d = 10")
      case False
      then have "\<not> ?P r" for r using sale_pair_length [of norm_date r p d] len by blast
      then show ?thesis by simp
    next
      case True
      have keys: "dedup_key norm_date r = Inr k'" if "(r, k') \<in> set keyed" for r k'
        using with_keys_snd [OF k that] .
      have keys': "dedup_key norm_date r = Inr k'"
        if "(r, k') \<in> set (drop_duplicates_last keyed)" for r k'
        using that set_drop_duplicates_last [of keyed] keys by blast
      have f1: "filter ?P passing = map fst (filter ?K keyed)"
        using filter_keyed [where nd = norm_date and xs = keyed and p = p and d = d, OF len True keys]
          with_keys_fst [OF k] by simp
      have f2: "filter ?P (map fst (drop_duplicates_last keyed))
                  = map fst (filter ?K (drop_duplicates_last keyed))"
        using filter_keyed [where nd = norm_date and xs = "drop_duplicates_last keyed" and p = p
                and d = d, OF len True keys'] by simp
      have f3: "filter ?K (drop_duplicates_last keyed) =
                  (if filter ?K keyed = [] then [] else [last (filter ?K keyed)])"
        by (rule drop_duplicates_last_filter)
      have small: "length (filter ?P (map fst (drop_duplicates_last keyed))) \<le> 1"
        unfolding f2 f3 by simp
      have "filter ?P out = filter ?P (map fst (drop_duplicates_last keyed))"
        unfolding o by (rule filter_sort_values_desc [OF small])
      also have "\<dots> = (if filter ?K keyed = [] then [] else [fst (last (filter ?K keyed))])"
        unfolding f2 f3 by simp
      also have "\<dots> = (if filter ?P passing = [] then [] else [last (filter ?P passing)])"
        unfolding f1 by (simp add: last_map)
      finally show ?thesis unfolding pr .
    qed
  qed
qed


theorem get_comparable_sales_dedup_witness:
  "sample_norm_date ''5/25/2022'' = Inr (Some ''2022-05-25'')
   \<and> length ''2022-05-25'' = 10
   \<and> get_comparable_sales sample_norm_date sample_sales ''AR-4''
       = Inr [comp_sale.truncate (sample_row ''L-1'' ''5/25/2022'' 350000 (Some ''03-ARM'') 2025),
              comp_sale.truncate (sample_row ''L-2'' ''06/01/2023'' 450000 (Some ''03-ARM'') 2025)]
   \<and> filter (\<lambda>r. sale_pair sample_norm_date r = Some (''L-1'', ''2022-05-25''))
        (passing_rows sample_sales ''AR-4'')
       = [comp_sale.truncate (sample_row ''L-1 '' ''05/25/2022'' 350000 (Some ''03-arm'') 2024),
          comp_sale.truncate (sample_row ''L-1'' ''5/25/2022'' 350000 (Some ''03-ARM'') 2025)]
   \<and> filter (\<lambda>r. sale_pair sample_norm_date r = Some (''L-1'', ''2022-05-25''))
        [comp_sale.truncate (sample_row ''L-1'' ''5/25/2022'' 350000 (Some ''03-ARM'') 2025),
         comp_sale.truncate (sample_row ''L-2'' ''06/01/2023'' 450000 (Some ''03-ARM'') 2025)]
       = [comp_sale.truncate (sample_row ''L-1'' ''5/25/2022'' 350000 (Some ''03-ARM'') 2025)]"
proof -
  have len: "\<And>s d. sample_norm_date s = Inr (Some d) \<Longrightarrow> length d = 10"
    by (auto simp: sample_norm_date_def split: if_splits)
  have pass: "filter (\<lambda>r. sale_pair sample_norm_date r = Some (''L-1'', ''2022-05-25''))
        (passing_rows sample_sales ''AR-4'')
       = [comp_sale.truncate (sample_row ''L-1 '' ''05/25/2022'' 350000 (Some ''03-arm'') 2024),
          comp_sale.truncate (sample_row ''L-1'' ''5/25/2022'' 350000 (Some ''03-ARM'') 2025)]"
    by (simp add: sample_sales_def sales_eval)
  show ?thesis
    using get_comparable_sales_dedup [where norm_date = sample_norm_date
            and sales = sample_sales and a = "''AR-4''" and p = "''L-1''"
            and d = "''2022-05-25''", OF len sample_sales_eval]
          sample_sales_eval pass
    by (simp add: sample_norm_date_def)
qed

text \<open>The claim as written fails when the later record of a sale does not pass the
  filters: the row returned is the earlier one.\<close>

theorem get_comparable_sales_later_counterexample:
  "get_comparable_sales sample_norm_date sales_later_filtered ''AR-4''
     = Inr [comp_sale.truncate (sample_row ''L-1'' ''05/25/2022'' 350000 (Some ''03-ARM'') 2024)]
   \<and> sale_pair sample_norm_date
        (comp_sale.truncate (sample_row ''L-1'' ''05/25/2022'' 350000 (Some ''03-ARM'') 2024))
       = Some (''L-1'', ''2022-05-25'')
   \<and> sale_pair sample_norm_date
        (comp_sale.truncate (sample_row ''L-1'' ''5/25/2022'' 100000 (Some ''03-ARM'') 2025))
       = Some (''L-1'', ''2022-05-25'')"
  by (simp add: sales_later_filtered_def sales_eval)

section \<open>Cost-factor views\<close>

lemma loaded_row_ecf:
  assumes "ea_has_ECF df" "r' \<in> set (ea_rows (load_ecf_analysis_table df))" "ea_ECF r' = Some x"
  shows "1 / 10 \<le> x \<and> x \<le> 5 \<and> (\<exists>r \<in> set (ea_rows df). ea_ECF r = Some x)"
  using assms
  by (auto simp: load_ecf_analysis_table_def between_def split: if_splits option.splits)

lemma loaded_flags:
  "ea_has_ECF (load_ecf_analysis_table df) = ea_has_ECF df"
  by (simp add: load_ecf_analysis_table_def)

lemma ecf_properties_of_year_rows:
  assumes "ecf_properties_of_year a y df = Inr props" "ep \<in> set props"
  shows "ea_has_ECF df \<and> ep_year ep = y
         \<and> (\<exists>r \<in> set (ea_rows df). ea_ECF r \<noteq> None \<and> ep_ecf ep = ea_ECF r)"
  using assms
  by (auto simp: ecf_properties_of_year_def Let_def split: if_splits) (metis option.distinct(1))+

lemma get_ecf_properties_rows:
  assumes "get_ecf_properties tables a = Inr props" "ep \<in> set props"
  shows "\<exists>(y, df) \<in> set tables. ea_has_ECF df \<and> ep_year ep = y
           \<and> (\<exists>r \<in> set (ea_rows df). ea_ECF r \<noteq> None \<and> ep_ecf ep = ea_ECF r)"
  using assms
proof (induction tables arbitrary: props)
  case Nil
  then show ?case by simp
next
  case (Cons ydf tables)
  obtain y df where ydf: "ydf = (y, df)" by (cases ydf)
  from Cons.prems ydf obtain r1 r2 where
    r1: "ecf_properties_of_year a y df = Inr r1" and r2: "get_ecf_properties tables a = Inr r2"
    and props: "props = r1 @ r2"
    by (auto simp: bind_res_def split: sum.splits)
  from Cons.prems(2) props consider "ep \<in> set r1" | "ep \<in> set r2" by auto
  then show ?case
  proof cases
    case 1
    with ecf_properties_of_year_rows [OF r1] ydf show ?thesis by auto
  next
    case 2
    with Cons.IH [OF r2] show ?thesis by auto
  qed
qed

lemma sample_ecf_properties_eval: "get_ecf_properties (load_ecf_analysis sample_ecf_files) ''AR-4''
   = Inr [sample_ecf_property ''1 A ST'' (85 / 100), sample_ecf_property ''2 A ST'' 5,
          sample_ecf_property ''4 A ST'' (1 / 10)]"
  by (simp add: sample_ecf_files_def load_ecf_analysis_def load_ecf_analysis_table_def
        between_def sample_ecf_row_def ecf_properties_of_year_def bind_res_def
        sample_ecf_property_def get_str_def get_num_def py_strip_def is_space_def
      del: not_None_eq)

lemma sample_ecf_trend_eval: "get_ecf_trend (load_ecf_summaries sample_summary_files) ''AR-4'' = [(2026, Some (73 / 10))]"
  by (simp add: sample_summary_files_def load_ecf_summaries_def load_ecf_summaries_table_def
        get_ecf_trend_def)


text \<open>
  C4, as amended. For every set of per-property cost-factor files loaded by
  \<^verbatim>\<open>_load_ecf_analysis\<close> and every area code, every entry of \<^verbatim>\<open>get_ecf_properties\<close> has a
  cost factor in the closed interval from 0.1 to 5.0, and it is the factor of a row of
  that year's file as read: a factor outside the interval is made missing and its row
  left out, never moved into the interval.
\<close>

theorem get_ecf_properties_domain:
  assumes "get_ecf_properties (load_ecf_analysis files) a = Inr props" and "ep \<in> set props"
  shows "\<exists>x. ep_ecf ep = Some x \<and> 1 / 10 \<le> x \<and> x \<le> 5
            \<and> (\<exists>(y, df) \<in> set files. ep_year ep = y
                  \<and> (\<exists>r \<in> set (ea_rows df). ea_ECF r = Some x))"
proof -
  from get_ecf_properties_rows [OF assms] obtain y df' r' where
    m: "(y, df') \<in> set (load_ecf_analysis files)" and has: "ea_has_ECF df'"
    and yr: "ep_year ep = y" and r': "r' \<in> set (ea_rows df')"
    and ne: "ea_ECF r' \<noteq> None" and eq: "ep_ecf ep = ea_ECF r'"
    by blast
  from m obtain df where df: "(y, df) \<in> set files" and df': "df' = load_ecf_analysis_table df"
    by (auto simp: load_ecf_analysis_def)
  from ne obtain x where x: "ea_ECF r' = Some x" by auto
  from has df' have "ea_has_ECF df" by (simp add: loaded_flags)
  from loaded_row_ecf [OF this r' [unfolded df'] x]
  have "1 / 10 \<le> x \<and> x \<le> 5 \<and> (\<exists>r \<in> set (ea_rows df). ea_ECF r = Some x)" .
  with df yr eq x show ?thesis by auto
qed


theorem get_ecf_properties_domain_witness:
  "get_ecf_properties (load_ecf_analysis sample_ecf_files) ''AR-4''
     = Inr [sample_ecf_property ''1 A ST'' (85 / 100), sample_ecf_property ''2 A ST'' 5,
            sample_ecf_property ''4 A ST'' (1 / 10)]
   \<and> ep_ecf (sample_ecf_property ''1 A ST'' (85 / 100)) = Some (85 / 100)
   \<and> (1 / 10 :: real) \<le> 85 / 100 \<and> (85 / 100 :: real) \<le> 5"
  using get_ecf_properties_domain [OF sample_ecf_properties_eval,
          of "sample_ecf_property ''1 A ST'' (85 / 100)"]
        sample_ecf_properties_eval
  by (simp add: sample_ecf_property_def)

text \<open>The claim as written fails twice: the loader keeps the ends of its range, so 5.0
  is listed; and the area-level summaries are loaded without any range check, so the
  trend reports 7.3.\<close>

theorem ecf_views_counterexample:
  "get_ecf_properties (load_ecf_analysis sample_ecf_files) ''AR-4''
     = Inr [sample_ecf_property ''1 A ST'' (85 / 100), sample_ecf_property ''2 A ST'' 5,
            sample_ecf_property ''4 A ST'' (1 / 10)]
   \<and> ep_ecf (sample_ecf_property ''2 A ST'' 5) = Some 5
   \<and> \<not> (5 :: real) < 5
   \<and> get_ecf_trend (load_ecf_summaries sample_summary_files) ''AR-4'' = [(2026, Some (73 / 10))]
   \<and> \<not> (73 / 10 :: real) < 5"
  using sample_ecf_properties_eval sample_ecf_trend_eval
  by (simp add: sample_ecf_property_def)

section \<open>Record-card parser: pages and the derived assessed value\<close>

lemma history_step_page2:
  "history_step m pd = Inr q \<Longrightarrow> page2_fields q = page2_fields pd"
  by (cases m) (auto simp: history_step_def bind_res_def page2_fields_def Let_def
        split: sum.splits if_splits)

lemma history_loop_page2:
  "history_loop ms pd = Inr q \<Longrightarrow> page2_fields q = page2_fields pd"
proof (induction ms arbitrary: pd)
  case Nil
  then show ?case by simp
next
  case (Cons m ms)
  then obtain r where "history_step m pd = Inr r" "history_loop ms r = Inr q"
    by (auto simp: bind_res_def split: sum.splits)
  with Cons.IH history_step_page2 show ?case by metis
qed

lemma parse_assessment_history_page2:
  "parse_assessment_history re t pd = Inr q \<Longrightarrow> page2_fields q = page2_fields pd"
  using history_loop_page2
  by (fastforce simp: parse_assessment_history_def bind_res_def Let_def page2_fields_def
        split: sum.splits)

lemma parse_page1_page2:
  assumes "parse_page1 re t pd = Inr q"
  shows "page2_fields q = page2_fields pd"
proof -
  from assms obtain mid where m: "parse_assessment_history re t mid = Inr q"
    and same: "page2_fields mid = page2_fields pd"
    by (auto simp: parse_page1_def Let_def page2_fields_def split: option.splits)
  from parse_assessment_history_page2 [OF m] same show ?thesis by simp
qed

lemma derive_sev_page2: "page2_fields (derive_sev pd) = page2_fields pd"
  by (simp add: derive_sev_def page2_fields_def)

lemma parse_rc_pdf_two: "parse_rc_pdf re ocr (p1 # p2 # rest) = parse_rc_pdf re ocr [p1, p2]"
  by (simp add: parse_rc_pdf_def)

lemma parse_rc_pdf_empty: "parse_rc_pdf re ocr [] = Inr default_PropertyData"
  by (simp add: parse_rc_pdf_def bind_res_def derive_sev_def default_PropertyData_def)

lemma parse_rc_pdf_one:
  assumes "parse_rc_pdf re ocr [p1] = Inr pd"
  shows "page2_fields pd = page2_fields default_PropertyData"
proof -
  from assms obtain q where
    q: "parse_page1 re (ocr p1) (default_PropertyData\<lparr>raw_text_page1 := ocr p1\<rparr>) = Inr q"
    and pd: "pd = derive_sev q"
    by (auto simp: parse_rc_pdf_def bind_res_def Let_def split: sum.splits)
  from parse_page1_page2 [OF q] have "page2_fields q = page2_fields default_PropertyData"
    by (simp add: page2_fields_def)
  with pd show ?thesis by (simp add: derive_sev_page2)
qed

lemma history_loop_total:
  assumes "\<And>m. m \<in> set ms \<Longrightarrow> int_of_str (fst m) \<noteq> None"
  shows "\<exists>q. history_loop ms pd = Inr q"
  using assms
proof (induction ms arbitrary: pd)
  case Nil
  show ?case by simp
next
  case (Cons m ms)
  from Cons.prems [of m] obtain n where "int_of_str (fst m) = Some n" by auto
  then obtain r where "history_step m pd = Inr r"
    by (cases m) (auto simp: history_step_def bind_res_def int_or_raise_def Let_def)
  moreover from Cons.IH [of r] Cons.prems obtain q where "history_loop ms r = Inr q" by auto
  ultimately show ?case by (auto simp: bind_res_def)
qed

lemma parse_rc_pdf_one_total:
  assumes "\<And>m. m \<in> set (re_finditer re HISTORY_PATTERN (normalize_ocr_numbers re (ocr p1)))
             \<Longrightarrow> int_of_str (fst m) \<noteq> None"
  shows "\<exists>pd. parse_rc_pdf re ocr [p1] = Inr pd"
proof -
  have "\<exists>q. parse_assessment_history re (ocr p1) pd = Inr q" for pd
    using history_loop_total [OF assms, of _ pd]
    by (fastforce simp: parse_assessment_history_def bind_res_def Let_def)
  then have "\<exists>q. parse_page1 re (ocr p1) pd = Inr q" for pd
    by (simp add: parse_page1_def Let_def)
  then obtain q where
    "parse_page1 re (ocr p1) (default_PropertyData\<lparr>raw_text_page1 := ocr p1\<rparr>) = Inr q"
    by blast
  then show ?thesis
    by (simp add: parse_rc_pdf_def bind_res_def Let_def)
qed

lemmas parser_eval =
  parse_rc_pdf_def parse_page1_def parse_assessment_history_def normalize_ocr_numbers_def
  sample_re_def bind_res_def derive_sev_def default_PropertyData_def clean_number_or_0_def
  clean_number_def int_of_str_def py_strip_def is_space_def is_ascii_letter_def
  valid_digits_def is_digit_def digits_value_def CARD_ODD_def CARD_EVEN_def
  PARCEL_PATTERN_def ADDRESS_PATTERN_def ADDRESS_FALLBACK_PATTERN_def LAND_TABLE_PATTERN_def
  TCV_PATTERN_def LAND_VALUE_PATTERN_def HISTORY_PATTERN_def bslash_def

lemma card_odd_eval:
  "parse_rc_pdf sample_re id [CARD_ODD]
     = Inr (default_PropertyData\<lparr>raw_text_page1 := CARD_ODD, tcv_2026 := 400001,
                                  sev_2026 := 200000\<rparr>)"
  by (simp add: parser_eval)

lemma card_even_eval:
  "parse_rc_pdf sample_re id [CARD_EVEN]
     = Inr (default_PropertyData\<lparr>raw_text_page1 := CARD_EVEN, tcv_2026 := 400000,
                                  sev_2026 := 200000\<rparr>)"
  by (simp add: parser_eval)

text \<open>
  C10. For a document that opened and has no page, \<^verbatim>\<open>parse_rc_pdf\<close> returns the default
  \<^verbatim>\<open>PropertyData\<close> without raising. For a document of one page, whatever it returns
  has every second-page field at its default (style, year built, condition, effective
  age, the three areas, the cost-approach totals, the cost factor, the text of page 2),
  and it does return when the year of every history row reads as an integer. Pages
  after the second are never read: the result on any longer document is the result on
  its first two pages.
\<close>

theorem parse_rc_pdf_pages:
  "parse_rc_pdf re ocr [] = Inr default_PropertyData
   \<and> (\<forall>pd. parse_rc_pdf re ocr [p1] = Inr pd
          \<longrightarrow> page2_fields pd = page2_fields default_PropertyData)
   \<and> ((\<forall>m \<in> set (re_finditer re HISTORY_PATTERN (normalize_ocr_numbers re (ocr p1))).
           int_of_str (fst m) \<noteq> None)
        \<longrightarrow> (\<exists>pd. parse_rc_pdf re ocr [p1] = Inr pd))
   \<and> parse_rc_pdf re ocr (p1 # p2 # rest) = parse_rc_pdf re ocr [p1, p2]"
  using parse_rc_pdf_empty [of re ocr] parse_rc_pdf_one [of re ocr p1]
    parse_rc_pdf_one_total [of re ocr p1] parse_rc_pdf_two [of re ocr p1 p2 rest]
  by blast

theorem parse_rc_pdf_pages_witness:
  "parse_rc_pdf sample_re id [] = Inr default_PropertyData
   \<and> parse_rc_pdf sample_re id [CARD_EVEN]
       = Inr (default_PropertyData\<lparr>raw_text_page1 := CARD_EVEN, tcv_2026 := 400000,
                                    sev_2026 := 200000\<rparr>)
   \<and> page2_fields (default_PropertyData\<lparr>raw_text_page1 := CARD_EVEN, tcv_2026 := 400000,
                                         sev_2026 := 200000\<rparr>)
       = ([], 0, [], 0, 0, 0, 0, 0, 0, None, 0, [])
   \<and> parse_rc_pdf sample_re id [CARD_EVEN, CARD_ODD, CARD_EVEN]
       = parse_rc_pdf sample_re id [CARD_EVEN, CARD_ODD]"
  using parse_rc_pdf_pages [of sample_re id CARD_EVEN CARD_ODD "[CARD_EVEN]"] card_even_eval
  by (simp add: page2_fields_def default_PropertyData_def)

lemma values_rows:
  "table_row ''Assessed Value (SEV)'' s r \<in> set (assessment_values_lines s t r pd)"
  "table_row ''True Cash Value (TCV)'' t (2 * r) \<in> set (assessment_values_lines s t r pd)"
  by (simp_all add: assessment_values_lines_def table_row_def recommended_tcv_def Let_def
        mult.commute)

lemma grounds_pairs:
  "contends_line s \<in> set (grounds_lines a sd s t r)"
  "implying_line t \<in> set (grounds_lines a sd s t r)"
  "requested_line r (2 * r) \<in> set (grounds_lines a sd s t r)"
  by (simp_all add: grounds_lines_def contends_line_def implying_line_def requested_line_def
        recommended_tcv_def Let_def mult.commute)

lemma conclusion_pairs:
  "reduce_line s r \<in> set (conclusion_lines a s r e adj st)"
  "reflecting_line (2 * r) \<in> set (conclusion_lines a s r e adj st)"
  by (simp_all add: conclusion_lines_def reduce_line_def reflecting_line_def Let_def
        mult.commute)

lemma short_pair:
  assumes "not_recommended_lines a sd s t e adj st pd = Inr L"
  shows "your_sev_line s t \<in> set L"
  using assms
  by (auto simp: not_recommended_lines_def bind_res_def your_sev_line_def
        split: sum.splits option.splits if_splits)

lemma parse_rc_pdf_pages_eq:
  "parse_rc_pdf re ocr doc = bind_res (parse_pages re ocr doc) (\<lambda>q. Inr (derive_sev q))"
  by (auto simp: parse_rc_pdf_def parse_pages_def bind_res_def Let_def split: sum.splits)


lemma example_lines:
  assumes e: "trend_get ecf_trend 2026 = Some (85 / 100)" and c: "get_count s \<le> 0"
  shows "\<exists>L. generate_appeal_lines a sd 200000 ecf_trend s lts cov eps sdf pd = Inr L"
  using example_petition [OF e c, of a sd lts cov eps sdf pd]
  by (auto simp: generate_appeal_summary_def bind_res_def split: sum.splits)

lemma card_even_pages:
  "parse_pages sample_re id [CARD_EVEN]
     = Inr (default_PropertyData\<lparr>raw_text_page1 := CARD_EVEN, tcv_2026 := 400000\<rparr>)"
  by (simp add: parse_pages_def parser_eval)


text \<open>
  C6, as amended. Whatever lines \<^verbatim>\<open>generate_appeal_summary\<close> returns, the true cash
  value shown with the homeowner's assessed value is exactly twice it, and the true
  cash value shown with the recommended assessed value is exactly twice that: in the
  short form on the line of the two values, in the petition in the values table, the
  grounds and the conclusion. \<^verbatim>\<open>parse_rc_pdf\<close> returns the record of the two pages after
  one last step: when that record has no assessed value and a positive true cash value,
  the assessed value becomes the true cash value halved and rounded down, so that the
  true cash value is twice the assessed value plus the remainder, and exactly twice it
  if and only if it is even; in every other case the record is returned as it is.
\<close>

theorem tcv_sev_relation:
  "(\<forall>L. generate_appeal_lines a sd user_sev ecf_trend sales_stats lts cov eps sdf pd = Inr L
       \<longrightarrow> generate_appeal_summary a sd user_sev ecf_trend sales_stats lts cov eps sdf pd
             = Inr (join_lines L)
           \<and> (\<forall>rec_low rec_high.
                 compute_recommended_values (trend_get ecf_trend 2026) (2 * user_sev) sales_stats
                   = Inr (rec_low, rec_high)
                 \<longrightarrow> (if user_sev \<le> of_int (recommended_sev rec_low)
                      then your_sev_line user_sev (2 * user_sev) \<in> set L
                      else table_row ''Assessed Value (SEV)'' user_sev (recommended_sev rec_low)
                             \<in> set L
                         \<and> table_row ''True Cash Value (TCV)'' (2 * user_sev)
                               (2 * recommended_sev rec_low) \<in> set L
                         \<and> contends_line user_sev \<in> set L
                         \<and> implying_line (2 * user_sev) \<in> set L
                         \<and> requested_line (recommended_sev rec_low)
                               (2 * recommended_sev rec_low) \<in> set L
                         \<and> reduce_line user_sev (recommended_sev rec_low) \<in> set L
                         \<and> reflecting_line (2 * recommended_sev rec_low) \<in> set L)))
   \<and> parse_rc_pdf re ocr doc = bind_res (parse_pages re ocr doc) (\<lambda>q. Inr (derive_sev q))
   \<and> (\<forall>q. parse_pages re ocr doc = Inr q
          \<longrightarrow> parse_rc_pdf re ocr doc = Inr (derive_sev q)
              \<and> tcv_2026 (derive_sev q) = tcv_2026 q
              \<and> (sev_2026 q = 0 \<and> 0 < tcv_2026 q
                   \<longrightarrow> derive_sev q = q\<lparr>sev_2026 := tcv_2026 q div 2\<rparr>
                       \<and> sev_2026 (derive_sev q) = tcv_2026 q div 2
                       \<and> tcv_2026 (derive_sev q)
                           = 2 * sev_2026 (derive_sev q) + tcv_2026 q mod 2
                       \<and> (tcv_2026 (derive_sev q) = 2 * sev_2026 (derive_sev q)
                            \<longleftrightarrow> even (tcv_2026 q)))
              \<and> (\<not> (sev_2026 q = 0 \<and> 0 < tcv_2026 q) \<longrightarrow> derive_sev q = q))"
proof -
  let ?t = "2 * user_sev"
  have tcv: "homeowner_tcv user_sev = ?t" by (simp add: homeowner_tcv_def)
  have composer:
    "generate_appeal_summary a sd user_sev ecf_trend sales_stats lts cov eps sdf pd
       = Inr (join_lines L)
     \<and> (\<forall>rec_low rec_high.
           compute_recommended_values (trend_get ecf_trend 2026) ?t sales_stats
             = Inr (rec_low, rec_high)
           \<longrightarrow> (if user_sev \<le> of_int (recommended_sev rec_low)
                then your_sev_line user_sev ?t \<in> set L
                else table_row ''Assessed Value (SEV)'' user_sev (recommended_sev rec_low)
                       \<in> set L
                   \<and> table_row ''True Cash Value (TCV)'' ?t (2 * recommended_sev rec_low)
                       \<in> set L
                   \<and> contends_line user_sev \<in> set L
                   \<and> implying_line ?t \<in> set L
                   \<and> requested_line (recommended_sev rec_low) (2 * recommended_sev rec_low)
                       \<in> set L
                   \<and> reduce_line user_sev (recommended_sev rec_low) \<in> set L
                   \<and> reflecting_line (2 * recommended_sev rec_low) \<in> set L))"
    if L: "generate_appeal_lines a sd user_sev ecf_trend sales_stats lts cov eps sdf pd = Inr L"
    for L
  proof (intro conjI allI impI)
    show "generate_appeal_summary a sd user_sev ecf_trend sales_stats lts cov eps sdf pd
            = Inr (join_lines L)"
      using L by (simp add: generate_appeal_summary_def bind_res_def)
  next
    fix lo hi
    assume rv: "compute_recommended_values (trend_get ecf_trend 2026) ?t sales_stats
                  = Inr (lo, hi)"
    note unf = generate_appeal_lines_unfold [OF rv [folded tcv], of a sd lts cov eps sdf pd]
    show "if user_sev \<le> of_int (recommended_sev lo)
          then your_sev_line user_sev ?t \<in> set L
          else table_row ''Assessed Value (SEV)'' user_sev (recommended_sev lo) \<in> set L
             \<and> table_row ''True Cash Value (TCV)'' ?t (2 * recommended_sev lo) \<in> set L
             \<and> contends_line user_sev \<in> set L
             \<and> implying_line ?t \<in> set L
             \<and> requested_line (recommended_sev lo) (2 * recommended_sev lo) \<in> set L
             \<and> reduce_line user_sev (recommended_sev lo) \<in> set L
             \<and> reflecting_line (2 * recommended_sev lo) \<in> set L"
    proof (cases "user_sev \<le> of_int (recommended_sev lo)")
      case True
      with unf L have "not_recommended_lines a sd user_sev ?t (trend_get ecf_trend 2026)
                         (ecf_adjusted_of (trend_get ecf_trend 2026) ?t) sales_stats pd = Inr L"
        by (simp add: tcv)
      from short_pair [OF this] True show ?thesis by simp
    next
      case False
      with unf L obtain ev1 n1 where
        "L = header_lines
             @ property_information_lines a sd pd
             @ assessment_values_lines user_sev ?t (recommended_sev lo) pd
             @ grounds_lines a sd user_sev ?t (recommended_sev lo)
             @ ev1
             @ fst (evidence_sales_lines n1 a ?t sales_stats eps sdf)
             @ fst (evidence_land_lines (snd (evidence_sales_lines n1 a ?t sales_stats eps sdf))
                      a (trend_get ecf_trend 2026) lts)
             @ conclusion_lines a user_sev (recommended_sev lo) (trend_get ecf_trend 2026)
                 (ecf_adjusted_of (trend_get ecf_trend 2026) ?t) sales_stats
             @ legal_basis_lines @ petitioner_lines pd @ footer_lines"
        by (auto simp: tcv bind_res_def split: sum.splits prod.splits)
      with False show ?thesis
        by (simp add: values_rows grounds_pairs conclusion_pairs)
    qed
  qed
  have parser:
    "parse_rc_pdf re ocr doc = Inr (derive_sev q)
     \<and> tcv_2026 (derive_sev q) = tcv_2026 q
     \<and> (sev_2026 q = 0 \<and> 0 < tcv_2026 q
          \<longrightarrow> derive_sev q = q\<lparr>sev_2026 := tcv_2026 q div 2\<rparr>
              \<and> sev_2026 (derive_sev q) = tcv_2026 q div 2
              \<and> tcv_2026 (derive_sev q) = 2 * sev_2026 (derive_sev q) + tcv_2026 q mod 2
              \<and> (tcv_2026 (derive_sev q) = 2 * sev_2026 (derive_sev q)
                   \<longleftrightarrow> even (tcv_2026 q)))
     \<and> (\<not> (sev_2026 q = 0 \<and> 0 < tcv_2026 q) \<longrightarrow> derive_sev q = q)"
    if q: "parse_pages re ocr doc = Inr q" for q
  proof -
    have r: "parse_rc_pdf re ocr doc = Inr (derive_sev q)"
      using q by (simp add: parse_rc_pdf_pages_eq bind_res_def)
    have t: "tcv_2026 (derive_sev q) = tcv_2026 q" by (simp add: derive_sev_def)
    have f: "derive_sev q = q\<lparr>sev_2026 := tcv_2026 q div 2\<rparr>"
      if "sev_2026 q = 0 \<and> 0 < tcv_2026 q"
      using that by (simp add: derive_sev_def)
    have n: "derive_sev q = q" if "\<not> (sev_2026 q = 0 \<and> 0 < tcv_2026 q)"
      using that by (auto simp: derive_sev_def)
    have a1: "tcv_2026 q = 2 * (tcv_2026 q div 2) + tcv_2026 q mod 2" by simp
    have a2: "tcv_2026 q = 2 * (tcv_2026 q div 2) \<longleftrightarrow> even (tcv_2026 q)" by presburger
    show ?thesis using r t f n a1 a2 by auto
  qed
  show ?thesis using composer parser parse_rc_pdf_pages_eq [of re ocr doc] by blast
qed



theorem tcv_sev_relation_witness:
  "(\<exists>L. generate_appeal_lines ''AR-4'' ''MEADOWS'' 200000 sample_trend CountOnly [] [] [] None None
          = Inr L
        \<and> table_row ''Assessed Value (SEV)'' 200000 170000 \<in> set L
        \<and> table_row ''True Cash Value (TCV)'' 400000 340000 \<in> set L
        \<and> requested_line 170000 340000 \<in> set L
        \<and> reflecting_line 340000 \<in> set L)
   \<and> parse_pages sample_re id [CARD_EVEN]
       = Inr (default_PropertyData\<lparr>raw_text_page1 := CARD_EVEN, tcv_2026 := 400000\<rparr>)
   \<and> parse_rc_pdf sample_re id [CARD_EVEN]
       = Inr (default_PropertyData\<lparr>raw_text_page1 := CARD_EVEN, tcv_2026 := 400000,
                                    sev_2026 := 200000\<rparr>)"
proof -
  have e: "trend_get sample_trend 2026 = Some (85 / 100)"
    by (simp add: trend_get_def dict_get_def sample_trend_def)
  obtain L where L: "generate_appeal_lines ''AR-4'' ''MEADOWS'' 200000 sample_trend CountOnly
                       [] [] [] None None = Inr L"
    using example_lines [where ecf_trend = sample_trend and s = CountOnly and a = "''AR-4''"
            and sd = "''MEADOWS''" and lts = "[]" and cov = "[]" and eps = "[]" and sdf = None
            and pd = None, OF e]
    by auto
  have rv: "compute_recommended_values (trend_get sample_trend 2026) (2 * 200000) CountOnly
              = Inr (340000, 340000)"
    using example_values [of CountOnly] e by (simp add: homeowner_tcv_def)
  note inst = tcv_sev_relation [where user_sev = 200000 and ecf_trend = sample_trend
                   and sales_stats = CountOnly and a = "''AR-4''" and sd = "''MEADOWS''"
                   and lts = "[]" and cov = "[]" and eps = "[]" and sdf = None and pd = None
                   and re = sample_re and ocr = id and doc = "[CARD_EVEN]"]
  from inst L rv have
    "table_row ''Assessed Value (SEV)'' 200000 170000 \<in> set L
     \<and> table_row ''True Cash Value (TCV)'' 400000 340000 \<in> set L
     \<and> requested_line 170000 340000 \<in> set L
     \<and> reflecting_line 340000 \<in> set L"
    by (auto simp: example_sev)
  with L inst card_even_pages card_even_eval show ?thesis by blast
qed


text \<open>The claim as written fails for a card whose extracted true cash value is odd.\<close>

theorem tcv_sev_odd_counterexample:
  "parse_rc_pdf sample_re id [CARD_ODD]
     = Inr (default_PropertyData\<lparr>raw_text_page1 := CARD_ODD, tcv_2026 := 400001,
                                  sev_2026 := 200000\<rparr>)
   \<and> tcv_2026 (default_PropertyData\<lparr>raw_text_page1 := CARD_ODD, tcv_2026 := 400001,
                                     sev_2026 := 200000\<rparr>)
       \<noteq> 2 * sev_2026 (default_PropertyData\<lparr>raw_text_page1 := CARD_ODD, tcv_2026 := 400001,
                                              sev_2026 := 200000\<rparr>)"
  using card_odd_eval by simp

section \<open>Sales-study coverage and the petition\<close>

lemma map_of_dict_set: "map_of (dict_set d k v) = (map_of d)(k \<mapsto> v)"
  by (induction d) (auto simp: fun_eq_iff)

text \<open>For a dictionary of yearly tables, \<^verbatim>\<open>check_sales_coverage\<close> maps each loaded year to
  the count of that year's rows for the area.\<close>

lemma coverage_fold:
  assumes "distinct (map fst sales)"
  shows "map_of (fold (\<lambda>(y, df) coverage.
             if \<not> has_ECF_Area df then dict_set coverage y 0
             else dict_set coverage y
                    (int (length (filter (\<lambda>r. ECF_Area r = Some a) (sales_rows df)))))
           sales acc) y
         = (case map_of sales y of Some df \<Rightarrow> Some (area_count a df) | None \<Rightarrow> map_of acc y)"
  using assms
proof (induction sales arbitrary: acc)
  case Nil
  show ?case by simp
next
  case (Cons x sales)
  obtain k df where x: "x = (k, df)" by (cases x)
  from Cons.prems x have d: "distinct (map fst sales)" and k: "k \<notin> fst ` set sales" by auto
  from k have none: "map_of sales k = None" by (simp add: map_of_eq_None_iff)
  show ?case
    using Cons.IH [OF d] none x
    by (auto simp: map_of_dict_set area_count_def split: option.splits)
qed

lemma check_sales_coverage_counts:
  assumes "distinct (map fst sales)"
  shows "dict_get (check_sales_coverage sales a) y = map_option (area_count a) (dict_get sales y)"
  using coverage_fold [OF assms, of a "[]" y]
  by (simp add: check_sales_coverage_def dict_get_def split: option.splits)

text \<open>The composer does not read the coverage: any two coverage dictionaries give the
  same text.\<close>

lemma generate_appeal_summary_coverage:
  "generate_appeal_summary a sd s tr st lt c eps sdf pd
     = generate_appeal_summary a sd s tr st lt c' eps sdf pd"
  by (simp add: generate_appeal_summary_def generate_appeal_lines_def)

text \<open>
  C7, at the input of the specification's scenario. The coverage of the sample tables is
  5, 3 and 0 for 2024, 2025 and 2026, as the claim says. The petition composed with
  that coverage is returned, and it is the same text as the petition composed with
  four sales in 2026: nothing in it marks 2026 as dropped from the study.
\<close>

theorem coverage_drop_not_flagged:
  "check_sales_coverage coverage_sales ''AR-4'' = [(2024, 5), (2025, 3), (2026, 0)]
   \<and> \<not> isl (generate_appeal_summary ''AR-4'' ''MEADOWS'' 200000 sample_trend CountOnly []
              [(2024, 5), (2025, 3), (2026, 0)] [] None None)
   \<and> generate_appeal_summary ''AR-4'' ''MEADOWS'' 200000 sample_trend CountOnly []
        [(2024, 5), (2025, 3), (2026, 0)] [] None None
     = generate_appeal_summary ''AR-4'' ''MEADOWS'' 200000 sample_trend CountOnly []
        [(2024, 5), (2025, 3), (2026, 4)] [] None None"
proof -
  have cov: "check_sales_coverage coverage_sales ''AR-4'' = [(2024, 5), (2025, 3), (2026, 0)]"
    by (simp add: check_sales_coverage_def coverage_sales_def full_table_def sample_row_def
          numeral_eq_Suc)
  have e: "trend_get sample_trend 2026 = Some (85 / 100)"
    by (simp add: trend_get_def dict_get_def sample_trend_def)
  have "\<exists>t. generate_appeal_summary ''AR-4'' ''MEADOWS'' 200000 sample_trend CountOnly []
              [(2024, 5), (2025, 3), (2026, 0)] [] None None = Inr t \<and> is_petition t"
    by (rule example_petition [OF e]) simp
  then have ret: "\<not> isl (generate_appeal_summary ''AR-4'' ''MEADOWS'' 200000 sample_trend
                           CountOnly [] [(2024, 5), (2025, 3), (2026, 0)] [] None None)"
    by auto
  show ?thesis
    using cov ret
      generate_appeal_summary_coverage [of "''AR-4''" "''MEADOWS''" 200000 sample_trend
        CountOnly "[]" "[(2024, 5), (2025, 3), (2026, 0)]" "[]" None None
        "[(2024, 5), (2025, 3), (2026, 4)]"]
    by simp
qed

section \<open>Land-value trend: mode and median\<close>

lemma fold_max_ge: "m \<le> fold max xs (m::nat)"
  by (induction xs arbitrary: m) (auto intro: order_trans [OF max.cobounded2])

lemma fold_max_mem: "fold max xs (m::nat) = m \<or> fold max xs m \<in> set xs"
proof (induction xs arbitrary: m)
  case Nil
  show ?case by simp
next
  case (Cons x xs)
  from Cons.IH [of "max x m"] show ?case by (auto simp: max_def split: if_splits)
qed

lemma series_mode_nonempty:
  assumes "vals \<noteq> []"
  shows "series_mode vals \<noteq> []"
proof -
  let ?cs = "map (count_list vals) vals"
  let ?top = "fold max ?cs 0"
  obtain v where v: "v \<in> set vals" using assms by (cases vals) auto
  then have "count_list vals v \<noteq> 0" by (simp add: count_list_0_iff)
  then have "0 < count_list vals v" by simp
  moreover have "count_list vals v \<le> ?top"
  proof -
    have "\<And>c m. c \<in> set cs \<Longrightarrow> c \<le> fold max cs (m::nat)" for cs
    proof (induction cs)
      case Nil
      then show ?case by simp
    next
      case (Cons a cs)
      show ?case
      proof (cases "c = a")
        case True
        have "max a m \<le> fold max cs (max a m)" by (rule fold_max_ge)
        with True show ?thesis by simp
      next
        case False
        with Cons.prems have "c \<in> set cs" by simp
        from Cons.IH [OF this] show ?thesis by simp
      qed
    qed
    with v show ?thesis by simp
  qed
  ultimately have "?top \<noteq> 0" by simp
  with fold_max_mem [of ?cs 0] have "?top \<in> set ?cs" by auto
  then obtain w where "w \<in> set vals" "count_list vals w = ?top" by auto
  then have "w \<in> set (series_mode vals)"
    by (simp add: series_mode_def Let_def)
  then show ?thesis by auto
qed

lemma land_value_of_mode:
  "land_value_of col =
     (if dropna col = [] then None else Some (hd (series_mode (dropna col))))"
  using series_mode_nonempty [of "dropna col"]
  by (cases "series_mode (dropna col)") (auto simp: land_value_of_def Let_def)


text \<open>
  C8, at an input without a unique mode. The area's three rows of 2026 have the current
  land values 300,000, 100,000 and 200,000, each once. \<^verbatim>\<open>get_land_value_trends\<close> reports
  100,000, the least of the most frequent values; the median is 200,000. The prior
  value 90,000 occurs twice and is reported as the mode.
\<close>

theorem land_value_without_unique_mode:
  "get_land_value_trends sample_land_adj sample_land ''AR-4''
     = Inr [\<lparr>lt_year = 2026, adjust_factor = Some (105 / 100), prior_lv = Some 90000,
             current_lv = Some 100000\<rparr>]
   \<and> series_median [300000, 100000, 200000] = 200000"
  by (simp add: get_land_value_trends_def land_trend_of_year_def land_values_of_year_def
        land_area_rows_def sample_land_adj_def sample_land_def sample_land_row_def
        dict_get_def bind_res_def strip_cell_def py_strip_def is_space_def
        land_value_of_def series_mode_def series_median_def Let_def)

end
